theory Spec2Isabelle
  imports Complex_Main "HOL-Library.Sublist"
begin

section \<open>JavaScript values and strings\<close>

text \<open>
  The values the controllers read out of MongoDB documents and out of the extraction agent's
  JSON file are JSON values. A property that is absent reads as \<open>undefined\<close>, which is
  \<open>None\<close> of \<open>json option\<close> here. An object is the list of its own properties, each key once.
  Numbers are modelled as rationals: the code below only tests them for truthiness.
\<close>

datatype json =
    JNull
  | JBool bool
  | JNum rat
  | JStr string
  | JArr "json list"
  | JObj "(string \<times> json) list"

datatype js_error = TypeError string | SyntaxError string | ValidationError string | Error string

text \<open>JavaScript truthiness (\<open>if (v)\<close>, \<open>!v\<close>, \<open>a || b\<close>).\<close>

fun truthy :: "json option \<Rightarrow> bool" where
  "truthy None = False"
| "truthy (Some JNull) = False"
| "truthy (Some (JBool b)) = b"
| "truthy (Some (JNum r)) = (r \<noteq> 0)"
| "truthy (Some (JStr s)) = (s \<noteq> [])"
| "truthy (Some (JArr xs)) = True"
| "truthy (Some (JObj fs)) = True"

text \<open>
  \<open>v.k\<close> for the property names the controllers use (\<open>tests\<close>, \<open>flag\<close>, \<open>status\<close>, ...):
  reading a property of \<open>null\<close> throws a TypeError, an object yields its own property, and
  any other value (array, string, number, boolean) has no property of these names.
\<close>

fun get_prop :: "json \<Rightarrow> string \<Rightarrow> js_error + json option" where
  "get_prop JNull k = Inl (TypeError k)"
| "get_prop (JObj fs) k = Inr (map_of fs k)"
| "get_prop v k = Inr None"

subsection \<open>Strings\<close>

text \<open>
  Strings are lists of characters; the model covers ASCII text, on which \<open>trim\<close> removes
  tab, line feed, vertical tab, form feed, carriage return and space from both ends and
  \<open>toLowerCase\<close> maps \<open>A\<close>..\<open>Z\<close> to \<open>a\<close>..\<open>z\<close>.
\<close>

definition is_space :: "char \<Rightarrow> bool" where
  "is_space c = (c \<in> set [CHR 0x09, CHR 0x0A, CHR 0x0B, CHR 0x0C, CHR 0x0D, CHR '' ''])"

definition js_trim :: "string \<Rightarrow> string" where
  "js_trim s = rev (dropWhile is_space (rev (dropWhile is_space s)))"

definition lower_char :: "char \<Rightarrow> char" where
  "lower_char c =
     (case map_of (zip ''ABCDEFGHIJKLMNOPQRSTUVWXYZ'' ''abcdefghijklmnopqrstuvwxyz'') c of
        None \<Rightarrow> c
      | Some l \<Rightarrow> l)"

definition toLowerCase :: "string \<Rightarrow> string" where
  "toLowerCase s = map lower_char s"

text \<open>\<open>s.includes(sub)\<close>.\<close>

fun js_includes :: "string \<Rightarrow> string \<Rightarrow> bool" where
  "js_includes [] sub = (sub = [])"
| "js_includes (c # cs) sub = (prefix sub (c # cs) \<or> js_includes cs sub)"

text \<open>
  \<open>s.split(sep)\<close> for non-empty separators: the pieces between the occurrences of a
  separator, scanned from the left; with several separators (a regular expression
  \<open>a|b|c\<close>) the first alternative that matches at a position is taken. \<open>cur\<close> holds the
  current piece, reversed.
\<close>

fun split_from :: "string list \<Rightarrow> string \<Rightarrow> string \<Rightarrow> string list" where
  "split_from seps cur [] = [rev cur]"
| "split_from seps cur (c # cs) =
     (case find (\<lambda>sep. sep \<noteq> [] \<and> prefix sep (c # cs)) seps of
        Some sep \<Rightarrow> rev cur # split_from seps [] (drop (length sep - 1) cs)
      | None \<Rightarrow> split_from seps (c # cur) cs)"

definition js_split :: "string \<Rightarrow> string \<Rightarrow> string list" where
  "js_split s sep = split_from [sep] [] s"

text \<open>\<open>xs.join(sep)\<close>.\<close>

fun js_join :: "string list \<Rightarrow> string \<Rightarrow> string" where
  "js_join [] sep = []"
| "js_join [x] sep = x"
| "js_join (x # y # ys) sep = x @ sep @ js_join (y # ys) sep"

text \<open>\<open>xs[i]\<close> on an array: \<open>undefined\<close> out of range.\<close>

definition js_index :: "'a list \<Rightarrow> nat \<Rightarrow> 'a option" where
  "js_index xs i = (if i < length xs then Some (xs ! i) else None)"

subsection \<open>Exceptions\<close>

definition and_then :: "'e + 'a \<Rightarrow> ('a \<Rightarrow> 'e + 'b) \<Rightarrow> 'e + 'b" where
  "and_then m f = (case m of Inl e \<Rightarrow> Inl e | Inr x \<Rightarrow> f x)"

text \<open>
  \<open>error.message\<close>. The engine's wording of a TypeError or SyntaxError is not modelled: the
  model keeps the name of the property or the text that raised it.
\<close>

fun error_message :: "js_error \<Rightarrow> string" where
  "error_message (TypeError m) = m"
| "error_message (SyntaxError m) = m"
| "error_message (ValidationError m) = m"
| "error_message (Error m) = m"

text \<open>\<open>try { ... } catch (error) { throw new Error(prefix + error.message) }\<close>.\<close>

definition rethrow :: "string \<Rightarrow> js_error + 'a \<Rightarrow> js_error + 'a" where
  "rethrow pre m = (case m of Inl e \<Rightarrow> Inl (Error (pre @ error_message e)) | Inr x \<Rightarrow> Inr x)"

text \<open>Reading a property of a value that may be \<open>undefined\<close>.\<close>

fun get_prop_opt :: "json option \<Rightarrow> string \<Rightarrow> js_error + json option" where
  "get_prop_opt None k = Inl (TypeError k)"
| "get_prop_opt (Some v) k = get_prop v k"

text \<open>\<open>a || b\<close>.\<close>

definition js_or :: "json option \<Rightarrow> json option \<Rightarrow> json option" where
  "js_or a b = (if truthy a then a else b)"

section \<open>Risk level (extraction controller)\<close>

text \<open>
  The condition of the \<open>forEach\<close> body of \<open>determineRiskLevel\<close>:
  \<open>test.flag || test.status === 'High' || test.status === 'Low'\<close>.
\<close>

definition out_of_range :: "json \<Rightarrow> js_error + bool" where
  "out_of_range test =
     (case get_prop test ''flag'' of
        Inl e \<Rightarrow> Inl e
      | Inr flag \<Rightarrow>
          if truthy flag then Inr True
          else (case get_prop test ''status'' of
                  Inl e \<Rightarrow> Inl e
                | Inr status \<Rightarrow> Inr (status = Some (JStr ''High'') \<or> status = Some (JStr ''Low''))))"

text \<open>The \<open>forEach\<close> loop, with the counter \<open>outOfRangeCount\<close> as accumulator.\<close>

fun count_out_of_range :: "json list \<Rightarrow> nat \<Rightarrow> js_error + nat" where
  "count_out_of_range [] outOfRangeCount = Inr outOfRangeCount"
| "count_out_of_range (test # rest) outOfRangeCount =
     (case out_of_range test of
        Inl e \<Rightarrow> Inl e
      | Inr b \<Rightarrow> count_out_of_range rest (if b then outOfRangeCount + 1 else outOfRangeCount))"

text \<open>
  \<open>determineRiskLevel(extractedData)\<close>. The source computes
  \<open>(outOfRangeCount / totalTests) * 100\<close> in IEEE doubles and compares with 30 and 15. For an
  array (fewer than \<open>2^32\<close> entries) the rounded value is above 30 exactly when the exact
  quotient is above 30 percent: the quotient \<open>0.3\<close> rounds to a double whose product with 100
  rounds to 30, and any other quotient is at least \<open>1 / (10 * 2^32)\<close> away from \<open>0.3\<close>, far
  more than the rounding error; the same holds at 15. The model therefore computes the
  percentage in exact rational arithmetic.
\<close>

definition determineRiskLevel :: "json \<Rightarrow> js_error + string" where
  "determineRiskLevel extractedData =
     (case get_prop extractedData ''tests'' of
        Inl e \<Rightarrow> Inl e
      | Inr tests \<Rightarrow>
          (case (case tests of
                   Some (JArr ts) \<Rightarrow>
                     (case count_out_of_range ts 0 of
                        Inl e \<Rightarrow> Inl e
                      | Inr c \<Rightarrow> Inr (c, length ts))
                 | _ \<Rightarrow> Inr (0, 0)) of
             Inl e \<Rightarrow> Inl e
           | Inr (outOfRangeCount, totalTests) \<Rightarrow>
               if totalTests = 0 then Inr ''Unknown''
               else
                 let percentage = (of_nat outOfRangeCount / of_nat totalTests) * (100 :: rat)
                 in if percentage > 30 then Inr ''High''
                    else if percentage > 15 then Inr ''Medium''
                    else Inr ''Normal''))"

text \<open>
  The entries that the loop counts, as a predicate: an entry of the array is counted when its
  \<open>flag\<close> is truthy or its \<open>status\<close> is High or Low. The abnormal fraction is the number of
  such entries over the number of entries.
\<close>

definition abnormal_entry :: "json \<Rightarrow> bool" where
  "abnormal_entry test =
     (case test of
        JObj fs \<Rightarrow> truthy (map_of fs ''flag'')
                     \<or> map_of fs ''status'' = Some (JStr ''High'')
                     \<or> map_of fs ''status'' = Some (JStr ''Low'')
      | _ \<Rightarrow> False)"

definition abnormal_fraction :: "json list \<Rightarrow> rat" where
  "abnormal_fraction ts = of_nat (length (filter abnormal_entry ts)) / of_nat (length ts)"

section \<open>Agent service\<close>

text \<open>
  The agent service starts one Python process per stage and reads what it printed. What the
  processes do is outside the controller: a run is described by the outcome of each process,
  the files the Node process finds afterwards, and the order in which the two narrative
  processes finish. \<open>JSON_parse\<close>, \<open>path_join_root\<close> and \<open>number_text\<close> stand for
  \<open>JSON.parse\<close>, \<open>path.join(this.projectRoot, p)\<close> and the text of a number.
\<close>

datatype proc_outcome =
    SpawnFailed string
  | Closed "int option" string string

datatype fs_entry = File string | Unreadable

record world =
  extraction_proc :: proc_outcome
  summary_proc :: proc_outcome
  recommendation_proc :: proc_outcome
  vault_proc :: proc_outcome
  summary_first :: bool
  disk :: "string \<Rightarrow> fs_entry option"
  JSON_parse :: "string \<Rightarrow> json option"
  path_join_root :: "string \<Rightarrow> string"
  number_text :: "rat \<Rightarrow> string"
  report_create_fails :: bool
  vault_update_fails :: bool

text \<open>
  \<open>_runPythonScript\<close>: the \<open>error\<close> event rejects, a \<open>close\<close> with an exit code other
  than 0 (or none, after a signal) rejects with \<open>stderr || stdout\<close>, exit code 0 resolves with
  the standard output.
\<close>

fun runPythonScript :: "proc_outcome \<Rightarrow> js_error + string" where
  "runPythonScript (SpawnFailed m) = Inl (Error (''Failed to start Python: '' @ m))"
| "runPythonScript (Closed code out err) =
     (if code \<noteq> Some 0
      then Inl (Error (''Python script failed: '' @ (if err \<noteq> [] then err else out)))
      else Inr out)"

text \<open>
  The entry that the file system holds at a path. The empty string is the path of no file:
  \<open>fs.existsSync('')\<close> is false and reading it fails with \<open>ENOENT\<close>.
\<close>

definition files :: "world \<Rightarrow> string \<Rightarrow> fs_entry option" where
  "files w p = (if p = [] then None else disk w p)"

definition existsSync :: "world \<Rightarrow> string \<Rightarrow> bool" where
  "existsSync w p = (files w p \<noteq> None)"

definition readFile :: "world \<Rightarrow> string \<Rightarrow> js_error + string" where
  "readFile w p =
     (case files w p of
        None \<Rightarrow> Inl (Error (''ENOENT: '' @ p))
      | Some Unreadable \<Rightarrow> Inl (Error (''EISDIR: '' @ p))
      | Some (File content) \<Rightarrow> Inr content)"

definition parseJSON :: "world \<Rightarrow> string \<Rightarrow> js_error + json" where
  "parseJSON w s = (case JSON_parse w s of None \<Rightarrow> Inl (SyntaxError s) | Some v \<Rightarrow> Inr v)"

text \<open>
  The parse every stage applies to the output of its process:
  \<^verbatim>\<open>
  if (output.includes('ERROR:')) throw new Error(output.split('ERROR:')[1].trim());
  if (!output.includes(marker)) throw new Error(missing);
  ... output.split(marker)[1].trim().split('\n')[0]
  \<close>
\<close>

definition marked_line :: "string \<Rightarrow> string \<Rightarrow> string \<Rightarrow> js_error + string" where
  "marked_line output marker missing =
     (if js_includes output ''ERROR:'' then
        (case js_index (js_split output ''ERROR:'') 1 of
           None \<Rightarrow> Inl (TypeError ''trim'')
         | Some e \<Rightarrow> Inl (Error (js_trim e)))
      else if \<not> js_includes output marker then Inl (Error missing)
      else
        (case js_index (js_split output marker) 1 of
           None \<Rightarrow> Inl (TypeError ''trim'')
         | Some rest \<Rightarrow>
             (case js_index (js_split (js_trim rest) ''\<newline>'') 0 of
                None \<Rightarrow> Inl (TypeError ''0'')
              | Some line \<Rightarrow> Inr line)))"

record extraction_result =
  data :: json
  jsonPath :: string
  patientInfo :: "json option"
  testCount :: "json option"

text \<open>\<open>path.join(this.projectRoot, p)\<close> throws unless \<open>p\<close> is a string.\<close>

definition path_join :: "world \<Rightarrow> json option \<Rightarrow> js_error + string" where
  "path_join w p = (case p of Some (JStr s) \<Rightarrow> Inr (path_join_root w s) | _ \<Rightarrow> Inl (TypeError ''path''))"

definition extractData :: "world \<Rightarrow> string \<Rightarrow> js_error + extraction_result" where
  "extractData w pdfPath =
     rethrow ''Data extraction failed: ''
      (and_then (runPythonScript (extraction_proc w)) (\<lambda>output.
       and_then (marked_line output ''OUTPUT_JSON:'' ''No JSON data returned from ExtractionAgent'') (\<lambda>jsonLine.
       and_then (parseJSON w jsonLine) (\<lambda>result.
       and_then (get_prop result ''medical_json'') (\<lambda>medical_json.
         if \<not> truthy medical_json then Inl (Error ''No medical JSON generated'')
         else
           and_then (path_join w medical_json) (\<lambda>jsonPath.
             if \<not> existsSync w jsonPath then Inl (Error (''JSON file not found: '' @ jsonPath))
             else
               and_then (readFile w jsonPath) (\<lambda>content.
               and_then (parseJSON w content) (\<lambda>extractedData.
               and_then (get_prop result ''test_count'') (\<lambda>test_count.
               and_then (get_prop result ''patient_info'') (\<lambda>patient_info.
               and_then (get_prop_opt patient_info ''name'') (\<lambda>name.
                 Inr \<lparr> data = extractedData,
                       jsonPath = (case medical_json of Some (JStr s) \<Rightarrow> s | _ \<Rightarrow> []),
                       patientInfo = patient_info,
                       testCount = test_count \<rparr>)))))))))))"

record narrative =
  n_text :: string
  n_filePath :: string

definition generateSummary :: "world \<Rightarrow> string \<Rightarrow> js_error + narrative" where
  "generateSummary w jsonFilePath =
     rethrow ''Summary generation failed: ''
      (and_then (runPythonScript (summary_proc w)) (\<lambda>output.
       and_then (marked_line output ''OUTPUT_FILE:'' ''No output file path returned from Summary agent'') (\<lambda>outputFilePath.
         if \<not> existsSync w outputFilePath
         then Inl (Error (''Summary file not found at: '' @ outputFilePath))
         else
           and_then (readFile w outputFilePath) (\<lambda>summary.
             Inr \<lparr> n_text = summary, n_filePath = outputFilePath \<rparr>))))"

definition generateRecommendations :: "world \<Rightarrow> string \<Rightarrow> js_error + narrative" where
  "generateRecommendations w jsonFilePath =
     rethrow ''Recommendation generation failed: ''
      (and_then (runPythonScript (recommendation_proc w)) (\<lambda>output.
       and_then (marked_line output ''OUTPUT_FILE:'' ''No output file path returned from Recommendation agent'') (\<lambda>outputFilePath.
         if outputFilePath = [] \<or> \<not> existsSync w outputFilePath
         then Inl (Error (''Recommendation file not found: '' @ outputFilePath))
         else
           and_then (readFile w outputFilePath) (\<lambda>recommendations.
             Inr \<lparr> n_text = recommendations, n_filePath = outputFilePath \<rparr>))))"

definition processWithVaultAgent :: "world \<Rightarrow> string \<Rightarrow> js_error + json" where
  "processWithVaultAgent w pdfPath =
     rethrow ''Patient identification failed: ''
      (and_then (runPythonScript (vault_proc w)) (\<lambda>output.
       and_then (marked_line output ''OUTPUT_JSON:'' ''No JSON data returned from VaultAgent'') (\<lambda>jsonLine.
       and_then (parseJSON w jsonLine) (\<lambda>result.
       and_then (get_prop result ''patient_name'') (\<lambda>patient_name.
       and_then (get_prop result ''vault_dir'') (\<lambda>vault_dir.
       and_then (get_prop result ''is_new_patient'') (\<lambda>is_new_patient.
         Inr result)))))))"

text \<open>
  The stages a run goes through are recorded as events, in the order in which the run starts
  and awaits them, up to the point where \<open>processComplete\<close> settles.
\<close>

datatype stage = Extraction | Summary | Recommendation | Vault

datatype event = Started stage | Finished stage | Failed stage

text \<open>
  \<open>Promise.all([generateSummary(p), generateRecommendations(p)])\<close>: both calls are started,
  in this order; the promise rejects with the first rejection in completion order and
  resolves with both results once both have resolved.
\<close>

definition narratives :: "world \<Rightarrow> string \<Rightarrow> event list \<times> (js_error + narrative \<times> narrative)" where
  "narratives w p =
     (let s = generateSummary w p; r = generateRecommendations w p
      in if summary_first w then
           (case s of
              Inl e \<Rightarrow> ([Started Summary, Started Recommendation, Failed Summary], Inl e)
            | Inr summaryResult \<Rightarrow>
                (case r of
                   Inl e \<Rightarrow> ([Started Summary, Started Recommendation,
                              Finished Summary, Failed Recommendation], Inl e)
                 | Inr recommendationResult \<Rightarrow>
                     ([Started Summary, Started Recommendation,
                       Finished Summary, Finished Recommendation],
                      Inr (summaryResult, recommendationResult))))
         else
           (case r of
              Inl e \<Rightarrow> ([Started Summary, Started Recommendation, Failed Recommendation], Inl e)
            | Inr recommendationResult \<Rightarrow>
                (case s of
                   Inl e \<Rightarrow> ([Started Summary, Started Recommendation,
                              Finished Recommendation, Failed Summary], Inl e)
                 | Inr summaryResult \<Rightarrow>
                     ([Started Summary, Started Recommendation,
                       Finished Recommendation, Finished Summary],
                      Inr (summaryResult, recommendationResult)))))"

record pipeline_result =
  patientName :: "json option"
  vaultPath :: "json option"
  extractedData :: json
  pr_jsonPath :: string
  pr_testCount :: "json option"
  summary :: string
  summaryFile :: string
  recommendations :: string
  recommendationsFile :: string
  isNewPatient :: "json option"
  totalReports :: "json option"
  metadata :: "json option"
  pr_status :: string

text \<open>
  \<open>processComplete(pdfPath)\<close>. The vault result and \<open>patientInfo\<close> are not \<open>null\<close> once their
  stages have returned, so building the result object does not throw.
\<close>

definition vault_prop :: "json \<Rightarrow> string \<Rightarrow> json option" where
  "vault_prop v k = (case v of JObj fs \<Rightarrow> map_of fs k | _ \<Rightarrow> None)"

definition processComplete :: "world \<Rightarrow> string \<Rightarrow> event list \<times> (js_error + pipeline_result)" where
  "processComplete w pdfPath =
     (case extractData w pdfPath of
        Inl e \<Rightarrow> ([Started Extraction, Failed Extraction], Inl e)
      | Inr extractionResult \<Rightarrow>
          (case narratives w (jsonPath extractionResult) of
             (evs, Inl e) \<Rightarrow> ([Started Extraction, Finished Extraction] @ evs, Inl e)
           | (evs, Inr (summaryResult, recommendationResult)) \<Rightarrow>
               (case processWithVaultAgent w pdfPath of
                  Inl e \<Rightarrow>
                    ([Started Extraction, Finished Extraction] @ evs @ [Started Vault, Failed Vault],
                     Inl e)
                | Inr vaultResult \<Rightarrow>
                    ([Started Extraction, Finished Extraction] @ evs @ [Started Vault, Finished Vault],
                     Inr \<lparr> patientName =
                             js_or (vault_prop vaultResult ''patient_name'')
                               (case patientInfo extractionResult of
                                  Some info \<Rightarrow> vault_prop info ''name''
                                | None \<Rightarrow> None),
                           vaultPath = vault_prop vaultResult ''vault_dir'',
                           extractedData = data extractionResult,
                           pr_jsonPath = jsonPath extractionResult,
                           pr_testCount = testCount extractionResult,
                           summary = n_text summaryResult,
                           summaryFile = n_filePath summaryResult,
                           recommendations = n_text recommendationResult,
                           recommendationsFile = n_filePath recommendationResult,
                           isNewPatient = vault_prop vaultResult ''is_new_patient'',
                           totalReports = js_or (vault_prop vaultResult ''total_reports'') (Some (JNum 1)),
                           metadata = None,
                           pr_status = ''success'' \<rparr>))))"

section \<open>Persistence\<close>

text \<open>
  The collections the controllers use, with the fields of their Mongoose schemas. A stored
  string field with \<open>trim: true\<close> holds the trimmed value. Identifiers are numbers, and
  dates are milliseconds. \<open>patientName\<close> holds what the schema stores: nothing, \<open>null\<close>, or a
  trimmed string.
\<close>

record report =
  report_id :: nat
  userID :: string
  rp_patientName :: "json option"
  reportType :: string
  rp_extractedData :: json
  rp_summary :: string
  rp_recommendations :: string
  riskLevel :: string

record vault_file =
  fileName :: string
  fileType :: string
  fileSize :: nat
  fileURL :: string
  vf_reportId :: "nat option"
  vf_patientName :: "json option"
  vf_status :: string
  uploadDate :: int

record vault =
  vault_userID :: string
  vault_files :: "vault_file list"

record chat_message =
  role :: string
  msg :: string
  timestamp :: int

record chat_session =
  chat_id :: nat
  chat_userID :: string
  relatedReportID :: nat
  chatHistory :: "chat_message list"

record database =
  reports :: "report list"
  vaults :: "vault list"
  chats :: "chat_session list"

text \<open>A new document gets an identifier that no document of the collection has.\<close>

definition fresh_id :: "nat list \<Rightarrow> nat" where
  "fresh_id ids = Suc (fold max ids 0)"

text \<open>
  The cast of a value to a schema field of type String: \<open>undefined\<close> and \<open>null\<close> stay, a
  string stays, a boolean or a number becomes its text, an object with a string \<open>_id\<close>
  becomes that identifier, and an array or any other object fails the cast. With
  \<open>trim: true\<close> the string is then trimmed.
\<close>

definition cast_String :: "world \<Rightarrow> json option \<Rightarrow> js_error + json option" where
  "cast_String w v =
     (case v of
        None \<Rightarrow> Inr None
      | Some JNull \<Rightarrow> Inr (Some JNull)
      | Some (JStr s) \<Rightarrow> Inr (Some (JStr s))
      | Some (JBool b) \<Rightarrow> Inr (Some (JStr (if b then ''true'' else ''false'')))
      | Some (JNum r) \<Rightarrow> Inr (Some (JStr (number_text w r)))
      | Some (JArr xs) \<Rightarrow> Inl (ValidationError ''Cast to string failed'')
      | Some (JObj fs) \<Rightarrow>
          (case map_of fs ''_id'' of
             Some (JStr i) \<Rightarrow>
               if i \<noteq> [] then Inr (Some (JStr i))
               else Inl (ValidationError ''Cast to string failed'')
           | _ \<Rightarrow> Inl (ValidationError ''Cast to string failed'')))"

definition cast_trimmed :: "world \<Rightarrow> json option \<Rightarrow> js_error + json option" where
  "cast_trimmed w v =
     (case cast_String w v of
        Inl e \<Rightarrow> Inl e
      | Inr (Some (JStr s)) \<Rightarrow> Inr (Some (JStr (js_trim s)))
      | Inr x \<Rightarrow> Inr x)"

definition report_types :: "string list" where
  "report_types = [''Blood Test'', ''Sugar'', ''Lipid Profile'', ''Complete Blood Count'', ''Other'']"

definition risk_levels :: "string list" where
  "risk_levels = [''Normal'', ''Medium'', ''High'', ''Unknown'']"

text \<open>
  \<open>Report.create({...})\<close> against the report schema: \<open>reportType\<close> is required and, once
  trimmed, must be one of the enumerated types (a value that is not a string is cast to text
  that is none of them, or fails the cast); \<open>riskLevel\<close> must be one of the enumerated
  levels; \<open>summary\<close> and \<open>recommendations\<close> are optional strings, stored trimmed;
  \<open>patientName\<close> is cast to an optional string, stored trimmed. Any other failure of the
  call is the flag \<open>report_create_fails\<close> of the run.
\<close>

definition Report_create ::
  "world \<Rightarrow> database \<Rightarrow> string \<Rightarrow> json option \<Rightarrow> json option \<Rightarrow> json \<Rightarrow> string \<Rightarrow> string \<Rightarrow> string
     \<Rightarrow> js_error + report \<times> database" where
  "Report_create w db userId patient rtype extracted summaryText recommendationsText risk =
     (if report_create_fails w then Inl (Error ''Report.create'')
      else
        (case cast_trimmed w patient of
           Inl e \<Rightarrow> Inl e
         | Inr name \<Rightarrow>
             (case rtype of
                Some (JStr s) \<Rightarrow>
                  if js_trim s \<in> set report_types \<and> risk \<in> set risk_levels then
                    (let r = \<lparr> report_id = fresh_id (map report_id (reports db)),
                                userID = userId,
                                rp_patientName = name,
                                reportType = js_trim s,
                                rp_extractedData = extracted,
                                rp_summary = js_trim summaryText,
                                rp_recommendations = js_trim recommendationsText,
                                riskLevel = risk \<rparr>
                     in Inr (r, db\<lparr>reports := reports db @ [r]\<rparr>))
                  else Inl (ValidationError ''Report validation failed'')
              | _ \<Rightarrow> Inl (ValidationError ''Report validation failed''))))"

text \<open>
  A file entry as \<open>fileSchema\<close> stores it: \<open>fileName\<close> and \<open>fileURL\<close> are trimmed and
  required, \<open>fileType\<close> is lower-cased and required, \<open>status\<close> is one of the enumerated
  states, and \<open>patientName\<close> is cast to an optional string and trimmed.
\<close>

definition file_states :: "string list" where
  "file_states = [''uploaded'', ''processed'', ''failed'']"

definition cast_file :: "world \<Rightarrow> vault_file \<Rightarrow> js_error + vault_file" where
  "cast_file w fileData =
     (case cast_trimmed w (vf_patientName fileData) of
        Inl e \<Rightarrow> Inl e
      | Inr name \<Rightarrow>
          if js_trim (fileName fileData) = [] \<or> fileType fileData = []
             \<or> js_trim (fileURL fileData) = [] \<or> vf_status fileData \<notin> set file_states
          then Inl (ValidationError ''Vault validation failed'')
          else Inr (fileData\<lparr> fileName := js_trim (fileName fileData),
                               fileType := toLowerCase (fileType fileData),
                               fileURL := js_trim (fileURL fileData),
                               vf_patientName := name \<rparr>))"

text \<open>
  \<open>updateUserVault(userId, fileData)\<close>: the user's vault is created with the file, or the
  file is pushed onto the existing vault; an error is logged and thrown again.
\<close>

fun push_file :: "string \<Rightarrow> vault_file \<Rightarrow> vault list \<Rightarrow> vault list" where
  "push_file userId fileData [] = [\<lparr> vault_userID = userId, vault_files = [fileData] \<rparr>]"
| "push_file userId fileData (v # vs) =
     (if vault_userID v = userId
      then v\<lparr>vault_files := vault_files v @ [fileData]\<rparr> # vs
      else v # push_file userId fileData vs)"

definition updateUserVault :: "world \<Rightarrow> database \<Rightarrow> string \<Rightarrow> vault_file \<Rightarrow> js_error + database" where
  "updateUserVault w db userId fileData =
     (if vault_update_fails w then Inl (Error ''Vault'')
      else
        (case cast_file w fileData of
           Inl e \<Rightarrow> Inl e
         | Inr stored \<Rightarrow> Inr (db\<lparr>vaults := push_file userId stored (vaults db)\<rparr>)))"

section \<open>Extraction controller: uploadReport\<close>

record upload_file =
  file_path :: string
  originalname :: string
  file_size :: nat

record upload_request =
  req_file :: "upload_file option"
  user_id :: string
  received_at :: int

record upload_data =
  ud_reportId :: nat
  ud_patientName :: "json option"
  ud_testCount :: "json option"
  ud_riskLevel :: string
  ud_isNewPatient :: "json option"
  ud_totalReports :: "json option"
  ud_summary :: string
  ud_recommendations :: string

record 'a response =
  status :: nat
  success :: bool
  res_message :: string
  res_error :: "string option"
  res_data :: "'a option"

record upload_outcome =
  new_db :: database
  trace :: "event list"
  reply :: "upload_data response"

text \<open>The \<open>catch\<close> block of \<open>uploadReport\<close>.\<close>

definition upload_failed :: "js_error \<Rightarrow> upload_data response" where
  "upload_failed e =
     \<lparr> status = 500, success = False, res_message = ''Failed to process report'',
       res_error = Some (error_message e), res_data = None \<rparr>"

definition uploadReport :: "world \<Rightarrow> database \<Rightarrow> upload_request \<Rightarrow> upload_outcome" where
  "uploadReport w db req =
     (case req_file req of
        None \<Rightarrow>
          \<lparr> new_db = db, trace = [],
            reply = \<lparr> status = 400, success = False, res_message = ''No PDF file uploaded'',
                      res_error = None, res_data = None \<rparr> \<rparr>
      | Some f \<Rightarrow>
          (case processComplete w (file_path f) of
             (evs, Inl e) \<Rightarrow> \<lparr> new_db = db, trace = evs, reply = upload_failed e \<rparr>
           | (evs, Inr result) \<Rightarrow>
               (case determineRiskLevel (extractedData result) of
                  Inl e \<Rightarrow> \<lparr> new_db = db, trace = evs, reply = upload_failed e \<rparr>
                | Inr risk \<Rightarrow>
                    (case get_prop (extractedData result) ''reportType'' of
                       Inl e \<Rightarrow> \<lparr> new_db = db, trace = evs, reply = upload_failed e \<rparr>
                     | Inr rtype \<Rightarrow>
                         (case Report_create w db (user_id req) (patientName result)
                                 (js_or rtype (Some (JStr ''Blood Test'')))
                                 (extractedData result) (summary result) (recommendations result) risk of
                            Inl e \<Rightarrow> \<lparr> new_db = db, trace = evs, reply = upload_failed e \<rparr>
                          | Inr (r, db1) \<Rightarrow>
                              (case updateUserVault w db1 (user_id req)
                                      \<lparr> fileName = originalname f,
                                        fileType = ''application/pdf'',
                                        fileSize = file_size f,
                                        fileURL = file_path f,
                                        vf_reportId = Some (report_id r),
                                        vf_patientName = patientName result,
                                        vf_status = ''processed'',
                                        uploadDate = received_at req \<rparr> of
                                 Inl e \<Rightarrow> \<lparr> new_db = db1, trace = evs, reply = upload_failed e \<rparr>
                               | Inr db2 \<Rightarrow>
                                   \<lparr> new_db = db2, trace = evs,
                                     reply = \<lparr> status = 201, success = True,
                                               res_message = ''Report processed successfully'',
                                               res_error = None,
                                               res_data = Some
                                                 \<lparr> ud_reportId = report_id r,
                                                   ud_patientName = patientName result,
                                                   ud_testCount = pr_testCount result,
                                                   ud_riskLevel = risk,
                                                   ud_isNewPatient = isNewPatient result,
                                                   ud_totalReports = totalReports result,
                                                   ud_summary = summary result,
                                                   ud_recommendations = recommendations result \<rparr> \<rparr> \<rparr>))))))"

section \<open>Chat sessions\<close>

text \<open>
  What a chat request meets outside the controller: whether a query or a save fails, the
  clock readings, and how the chatbot process ended. Identifiers in a request body are the
  identifier named, or none; a query for no identifier finds nothing (on the routes,
  \<open>validateMessage\<close> and \<open>validateStartChat\<close> answer such a request before the controller
  runs).
\<close>

record chat_io =
  find_fails :: bool
  save_fails :: bool
  rate_find_fails :: bool
  rate_now :: int
  now_user :: int
  now_bot :: int
  now_seed1 :: int
  now_seed2 :: int
  bot_exit :: "int option"
  bot_stdout :: string
  bot_stderr :: string

record chat_body =
  b_message :: "json option"
  b_chatId :: "nat option"

record chat_data =
  cd_message :: string
  cd_chatHistory :: "chat_message list"

record chat_outcome =
  co_db :: database
  co_reply :: "chat_data response"
  ai_calls :: nat

text \<open>An entry as \<open>chatHistorySchema\<close> casts it: the message is trimmed.\<close>

definition chat_entry :: "string \<Rightarrow> string \<Rightarrow> int \<Rightarrow> chat_message" where
  "chat_entry r m t = \<lparr> role = r, msg = js_trim m, timestamp = t \<rparr>"

text \<open>The schema's validation of a history: every role is enumerated, every message is present.\<close>

definition valid_history :: "chat_message list \<Rightarrow> bool" where
  "valid_history h = list_all (\<lambda>m. role m \<in> set [''user'', ''assistant''] \<and> msg m \<noteq> []) h"

definition find_session :: "database \<Rightarrow> string \<Rightarrow> nat option \<Rightarrow> chat_session option" where
  "find_session db userId chatId =
     (case chatId of
        None \<Rightarrow> None
      | Some i \<Rightarrow> find (\<lambda>c. chat_id c = i \<and> chat_userID c = userId) (chats db))"

definition find_session_for_report :: "database \<Rightarrow> string \<Rightarrow> nat \<Rightarrow> chat_session option" where
  "find_session_for_report db userId reportId =
     find (\<lambda>c. chat_userID c = userId \<and> relatedReportID c = reportId) (chats db)"

definition find_report :: "database \<Rightarrow> string \<Rightarrow> nat option \<Rightarrow> report option" where
  "find_report db userId reportId =
     (case reportId of
        None \<Rightarrow> None
      | Some i \<Rightarrow> find (\<lambda>r. report_id r = i \<and> userID r = userId) (reports db))"

text \<open>\<open>populate('relatedReportID')\<close>: the report of that identifier, or \<open>null\<close>.\<close>

definition populate_report :: "database \<Rightarrow> nat \<Rightarrow> report option" where
  "populate_report db reportId = find (\<lambda>r. report_id r = reportId) (reports db)"

definition save_session :: "chat_io \<Rightarrow> database \<Rightarrow> chat_session \<Rightarrow> js_error + database" where
  "save_session io db s =
     (if save_fails io then Inl (Error ''save'')
      else if \<not> valid_history (chatHistory s) then Inl (ValidationError ''ChatBot validation failed'')
      else Inr (db\<lparr>chats := map (\<lambda>c. if chat_id c = chat_id s then s else c) (chats db)\<rparr>))"

definition create_session :: "chat_io \<Rightarrow> database \<Rightarrow> chat_session \<Rightarrow> js_error + database" where
  "create_session io db s =
     (if save_fails io then Inl (Error ''save'')
      else if \<not> valid_history (chatHistory s) then Inl (ValidationError ''ChatBot validation failed'')
      else Inr (db\<lparr>chats := chats db @ [s]\<rparr>))"

subsection \<open>The chatbot process\<close>

text \<open>The decimal text of a number, and of an exit code as a template prints it.\<close>

fun decimal :: "nat \<Rightarrow> string" where
  "decimal n =
     (if n < 10 then [''0123456789'' ! n]
      else decimal (n div 10) @ [''0123456789'' ! (n mod 10)])"

declare decimal.simps [simp del]

definition exit_text :: "int option \<Rightarrow> string" where
  "exit_text code =
     (case code of
        None \<Rightarrow> ''null''
      | Some i \<Rightarrow> if i < 0 then ''-'' @ decimal (nat (- i)) else decimal (nat i))"

text \<open>
  The \<open>close\<close> handler of \<open>_callChatBot\<close>, given the exit code and what the process wrote.
\<close>

definition callChatBot :: "int option \<Rightarrow> string \<Rightarrow> string \<Rightarrow> js_error + string" where
  "callChatBot exitCode output errorOutput =
     (if exitCode \<noteq> Some 0 then
        Inl (Error (''ChatBot failed (exit '' @ exit_text exitCode @ ''): ''
                    @ (if errorOutput \<noteq> [] then errorOutput else ''Unknown error'')))
      else if js_includes output ''ERROR:'' then
        (case js_index (js_split output ''ERROR:'') 1 of
           None \<Rightarrow> Inl (TypeError ''trim'')
         | Some e \<Rightarrow> Inl (Error (js_trim e)))
      else if js_includes output ''BOT_RESPONSE:'' then
        (case js_index (js_split output ''BOT_RESPONSE:'') 1 of
           None \<Rightarrow> Inl (TypeError ''trim'')
         | Some r \<Rightarrow> Inr (js_trim r))
      else Inl (Error ''No response from ChatBot''))"

subsection \<open>sendMessage\<close>

text \<open>\<open>v.length\<close> of a value that is not \<open>null\<close>.\<close>

fun js_length :: "json \<Rightarrow> json option" where
  "js_length (JArr xs) = Some (JNum (of_nat (length xs)))"
| "js_length (JStr s) = Some (JNum (of_nat (length s)))"
| "js_length (JObj fs) = map_of fs ''length''"
| "js_length v = None"

text \<open>
  The test of \<open>Backend/controllers/chatbotController.js\<close>:
  \<open>!report.extractedData || !report.extractedData.tests || report.extractedData.tests.length === 0\<close>.
\<close>

definition no_tests_field :: "json \<Rightarrow> bool" where
  "no_tests_field ed =
     (\<not> truthy (Some ed) \<or>
      (case get_prop ed ''tests'' of
         Inl e \<Rightarrow> True
       | Inr None \<Rightarrow> True
       | Inr (Some t) \<Rightarrow> \<not> truthy (Some t) \<or> js_length t = Some (JNum 0)))"

text \<open>
  \<open>_extractTests\<close> of \<open>apps/backend/controllers/chatbotController.js\<close>: the first of the
  accepted keys that holds a non-empty array.
\<close>

definition possibleKeys :: "string list" where
  "possibleKeys = [''tests'', ''test_results'', ''testResults'', ''lab_tests'', ''labTests'', ''lab_results'']"

fun first_tests :: "(string \<times> json) list \<Rightarrow> string list \<Rightarrow> json list" where
  "first_tests fs [] = []"
| "first_tests fs (key # keys) =
     (case map_of fs key of
        Some (JArr (x # xs)) \<Rightarrow> x # xs
      | _ \<Rightarrow> first_tests fs keys)"

definition extractTests :: "json \<Rightarrow> json list" where
  "extractTests ed = (case ed of JObj fs \<Rightarrow> first_tests fs possibleKeys | _ \<Rightarrow> [])"

definition chat_reject :: "nat \<Rightarrow> string \<Rightarrow> 'a response" where
  "chat_reject code m =
     \<lparr> status = code, success = False, res_message = m, res_error = None, res_data = None \<rparr>"

text \<open>The \<open>catch\<close> block of \<open>sendMessage\<close>.\<close>

definition chat_failed :: "js_error \<Rightarrow> chat_data response" where
  "chat_failed e =
     \<lparr> status = 500, success = False, res_message = ''Failed to process message'',
       res_error = Some (error_message e), res_data = None \<rparr>"

text \<open>
  \<open>sendMessage\<close>. The two controllers differ in the test for lab data only, which is the
  parameter \<open>no_data\<close>. The user entry and the assistant entry are pushed onto the session
  object in memory; the database changes at \<open>chatSession.save()\<close> alone.
\<close>

definition sendMessage_with ::
  "(json \<Rightarrow> bool) \<Rightarrow> chat_io \<Rightarrow> database \<Rightarrow> string \<Rightarrow> chat_body \<Rightarrow> chat_outcome" where
  "sendMessage_with no_data io db userId body =
     (if \<not> truthy (b_message body) then
        \<lparr> co_db = db, co_reply = chat_reject 400 ''Message cannot be empty'', ai_calls = 0 \<rparr>
      else
        (case b_message body of
           Some (JStr message) \<Rightarrow>
             if length (js_trim message) = 0 then
               \<lparr> co_db = db, co_reply = chat_reject 400 ''Message cannot be empty'', ai_calls = 0 \<rparr>
             else if find_fails io then
               \<lparr> co_db = db, co_reply = chat_failed (Error ''findOne''), ai_calls = 0 \<rparr>
             else
               (case find_session db userId (b_chatId body) of
                  None \<Rightarrow>
                    \<lparr> co_db = db, co_reply = chat_reject 404 ''Chat session not found'', ai_calls = 0 \<rparr>
                | Some chatSession \<Rightarrow>
                    (case populate_report db (relatedReportID chatSession) of
                       None \<Rightarrow>
                         \<lparr> co_db = db, co_reply = chat_failed (TypeError ''extractedData''),
                           ai_calls = 0 \<rparr>
                     | Some report \<Rightarrow>
                         if no_data (rp_extractedData report) then
                           \<lparr> co_db = db,
                             co_reply = chat_reject 400
                               ''Report does not contain valid lab test data. Please process the report first.'',
                             ai_calls = 0 \<rparr>
                         else
                           (let h1 = chatHistory chatSession
                                       @ [chat_entry ''user'' (js_trim message) (now_user io)]
                            in case callChatBot (bot_exit io) (bot_stdout io) (bot_stderr io) of
                                 Inl e \<Rightarrow> \<lparr> co_db = db, co_reply = chat_failed e, ai_calls = 1 \<rparr>
                               | Inr botResponse \<Rightarrow>
                                   (let h2 = h1 @ [chat_entry ''assistant'' botResponse (now_bot io)];
                                        h3 = (if length h2 > 20 then drop (length h2 - 20) h2 else h2)
                                    in case save_session io db (chatSession\<lparr>chatHistory := h3\<rparr>) of
                                         Inl e \<Rightarrow>
                                           \<lparr> co_db = db, co_reply = chat_failed e, ai_calls = 1 \<rparr>
                                       | Inr db' \<Rightarrow>
                                           \<lparr> co_db = db',
                                             co_reply =
                                               \<lparr> status = 200, success = True, res_message = [],
                                                 res_error = None,
                                                 res_data = Some \<lparr> cd_message = botResponse,
                                                                    cd_chatHistory = h3 \<rparr> \<rparr>,
                                             ai_calls = 1 \<rparr>))))
         | _ \<Rightarrow> \<lparr> co_db = db, co_reply = chat_failed (TypeError ''trim''), ai_calls = 0 \<rparr>))"

text \<open>\<open>Backend/controllers/chatbotController.js\<close>.\<close>

definition sendMessage_Backend :: "chat_io \<Rightarrow> database \<Rightarrow> string \<Rightarrow> chat_body \<Rightarrow> chat_outcome" where
  "sendMessage_Backend = sendMessage_with no_tests_field"

text \<open>\<open>apps/backend/controllers/chatbotController.js\<close>.\<close>

definition sendMessage :: "chat_io \<Rightarrow> database \<Rightarrow> string \<Rightarrow> chat_body \<Rightarrow> chat_outcome" where
  "sendMessage = sendMessage_with (\<lambda>ed. length (extractTests ed) = 0)"

subsection \<open>Middleware and the message route\<close>

text \<open>
  A middleware answers the request, or calls \<open>next()\<close>, which is \<open>None\<close>. The length of
  a message is its number of UTF-16 code units, which on the ASCII text of the model is its
  number of characters.
\<close>

definition validateMessage :: "chat_body \<Rightarrow> chat_data response option" where
  "validateMessage body =
     (case b_message body of
        Some (JStr message) \<Rightarrow>
          if message = [] then Some (chat_reject 400 ''Message is required and must be a string'')
          else if length (js_trim message) = 0 then Some (chat_reject 400 ''Message cannot be empty'')
          else if length message > 1000 then
            Some (chat_reject 400 ''Message too long (max 1000 characters)'')
          else if b_chatId body = None then Some (chat_reject 400 ''Chat ID is required'')
          else None
      | _ \<Rightarrow> Some (chat_reject 400 ''Message is required and must be a string''))"

text \<open>
  \<open>chatRateLimit\<close>: an exception inside the \<open>try\<close> block (the query is the only statement
  that can throw) is logged and the request goes on.
\<close>

definition chatRateLimit :: "chat_io \<Rightarrow> database \<Rightarrow> string \<Rightarrow> chat_body \<Rightarrow> chat_data response option" where
  "chatRateLimit io db userId body =
     (if rate_find_fails io then None
      else
        (case find_session db userId (b_chatId body) of
           None \<Rightarrow> Some (chat_reject 404 ''Chat session not found'')
         | Some chatSession \<Rightarrow>
             if length (chatHistory chatSession) > 0 then
               (let lastMessage = last (chatHistory chatSession);
                    timeSinceLastMessage = rate_now io - timestamp lastMessage
                in if timeSinceLastMessage < 2000
                   then Some (chat_reject 429 ''Please wait before sending another message'')
                   else None)
             else None))"

text \<open>
  \<open>router.post('/message', validateMessage, chatRateLimit, sendMessage)\<close> of
  \<open>Backend/routes/chatbotRoutes.js\<close>.
\<close>

definition post_message :: "chat_io \<Rightarrow> database \<Rightarrow> string \<Rightarrow> chat_body \<Rightarrow> chat_outcome" where
  "post_message io db userId body =
     (case validateMessage body of
        Some res \<Rightarrow> \<lparr> co_db = db, co_reply = res, ai_calls = 0 \<rparr>
      | None \<Rightarrow>
          (case chatRateLimit io db userId body of
             Some res \<Rightarrow> \<lparr> co_db = db, co_reply = res, ai_calls = 0 \<rparr>
           | None \<Rightarrow> sendMessage_Backend io db userId body))"

subsection \<open>startChat\<close>

record start_body =
  b_reportId :: "nat option"

record start_data =
  sd_chatId :: nat
  sd_reportId :: nat
  sd_patientName :: "json option"
  sd_chatHistory :: "chat_message list"
  sd_reportSummary :: string

record start_outcome =
  so_db :: database
  so_reply :: "start_data response"

text \<open>The bullet character of the source, as its three UTF-8 bytes.\<close>

definition bullet :: string where
  "bullet = [CHR 0xE2, CHR 0x80, CHR 0xA2]"

text \<open>
  \<open>_normalizeRecommendations(value)\<close> for the string (or absent value) that the report
  schema stores.
\<close>

definition normalizeRecommendations :: "string \<Rightarrow> string list" where
  "normalizeRecommendations value =
     (if value = [] then []
      else filter (\<lambda>item. item \<noteq> [])
             (map js_trim (split_from [''\<newline>'', bullet, ''-''] [] value)))"



definition buildInitialMessages :: "report \<Rightarrow> int \<Rightarrow> int \<Rightarrow> chat_message list" where
  "buildInitialMessages report t1 t2 =
     (let insights =
            (if rp_summary report \<noteq> []
             then [\<lparr> role = ''assistant'',
                     msg = ''Here is the report summary:\<newline>'' @ rp_summary report,
                     timestamp = t1 \<rparr>]
             else []);
          recs = normalizeRecommendations (rp_recommendations report)
      in if length recs > 0
         then insights @ [\<lparr> role = ''assistant'',
                             msg = ''Recommended next steps:\<newline>'' @ bullet @ '' ''
                                     @ js_join recs (''\<newline>'' @ bullet @ '' ''),
                             timestamp = t2 \<rparr>]
         else insights)"

definition start_failed :: "js_error \<Rightarrow> start_data response" where
  "start_failed e =
     \<lparr> status = 500, success = False, res_message = ''Failed to start chat session'',
       res_error = Some (error_message e), res_data = None \<rparr>"

definition session_ready :: "report \<Rightarrow> chat_session \<Rightarrow> start_data response" where
  "session_ready r c =
     \<lparr> status = 200, success = True, res_message = ''Chat session ready'', res_error = None,
       res_data = Some \<lparr> sd_chatId = chat_id c, sd_reportId = report_id r,
                          sd_patientName = rp_patientName r,
                          sd_chatHistory = chatHistory c,
                          sd_reportSummary = rp_summary r \<rparr> \<rparr>"

text \<open>
  \<open>startChat\<close>. The two controllers differ in the history a new session starts with, which
  is the parameter \<open>seed\<close>.
\<close>

definition startChat_with ::
  "(chat_io \<Rightarrow> report \<Rightarrow> chat_message list) \<Rightarrow> chat_io \<Rightarrow> database \<Rightarrow> string \<Rightarrow> start_body
     \<Rightarrow> start_outcome" where
  "startChat_with seed io db userId body =
     (if find_fails io then \<lparr> so_db = db, so_reply = start_failed (Error ''findOne'') \<rparr>
      else
        (case find_report db userId (b_reportId body) of
           None \<Rightarrow> \<lparr> so_db = db, so_reply = chat_reject 404 ''Report not found or access denied'' \<rparr>
         | Some r \<Rightarrow>
             (case find_session_for_report db userId (report_id r) of
                Some chatSession \<Rightarrow> \<lparr> so_db = db, so_reply = session_ready r chatSession \<rparr>
              | None \<Rightarrow>
                  (let chatSession =
                         \<lparr> chat_id = fresh_id (map chat_id (chats db)),
                           chat_userID = userId,
                           relatedReportID = report_id r,
                           chatHistory = map (\<lambda>m. chat_entry (role m) (msg m) (timestamp m))
                                             (seed io r) \<rparr>
                   in case create_session io db chatSession of
                        Inl e \<Rightarrow> \<lparr> so_db = db, so_reply = start_failed e \<rparr>
                      | Inr db' \<Rightarrow> \<lparr> so_db = db', so_reply = session_ready r chatSession \<rparr>))))"

text \<open>\<open>Backend/controllers/chatbotController.js\<close>: a new session has an empty history.\<close>

definition startChat_Backend :: "chat_io \<Rightarrow> database \<Rightarrow> string \<Rightarrow> start_body \<Rightarrow> start_outcome" where
  "startChat_Backend = startChat_with (\<lambda>io r. [])"

text \<open>\<open>apps/backend/controllers/chatbotController.js\<close>: a new session is seeded.\<close>

definition startChat :: "chat_io \<Rightarrow> database \<Rightarrow> string \<Rightarrow> start_body \<Rightarrow> start_outcome" where
  "startChat = startChat_with (\<lambda>io r. buildInitialMessages r (now_seed1 io) (now_seed2 io))"

subsection \<open>The history of a session\<close>

text \<open>
  The history that a completed turn saves: the two entries are appended, and when more than
  20 entries result the last 20 are kept (\<open>slice(-20)\<close>).
\<close>

definition next_history :: "chat_message list \<Rightarrow> chat_message \<Rightarrow> chat_message \<Rightarrow> chat_message list" where
  "next_history h u a = (let h2 = (h @ [u]) @ [a] in if length h2 > 20 then drop (length h2 - 20) h2 else h2)"

text \<open>The outcome of a turn once the request has passed the checks of the controller.\<close>

definition turn_outcome :: "chat_io \<Rightarrow> database \<Rightarrow> chat_session \<Rightarrow> string \<Rightarrow> chat_outcome" where
  "turn_outcome io db s m =
     (case callChatBot (bot_exit io) (bot_stdout io) (bot_stderr io) of
        Inl e \<Rightarrow> \<lparr> co_db = db, co_reply = chat_failed e, ai_calls = 1 \<rparr>
      | Inr b \<Rightarrow>
          (case save_session io db
                  (s\<lparr>chatHistory := next_history (chatHistory s)
                                       (chat_entry ''user'' (js_trim m) (now_user io))
                                       (chat_entry ''assistant'' b (now_bot io))\<rparr>) of
             Inl e \<Rightarrow> \<lparr> co_db = db, co_reply = chat_failed e, ai_calls = 1 \<rparr>
           | Inr db' \<Rightarrow>
               \<lparr> co_db = db',
                 co_reply = \<lparr> status = 200, success = True, res_message = [], res_error = None,
                             res_data = Some \<lparr> cd_message = b,
                                               cd_chatHistory = next_history (chatHistory s)
                                                 (chat_entry ''user'' (js_trim m) (now_user io))
                                                 (chat_entry ''assistant'' b (now_bot io)) \<rparr> \<rparr>,
                 ai_calls = 1 \<rparr>))"

definition reaches_turn :: "(json \<Rightarrow> bool) \<Rightarrow> chat_io \<Rightarrow> database \<Rightarrow> string \<Rightarrow> chat_body \<Rightarrow> chat_session \<Rightarrow> string \<Rightarrow> bool" where
  "reaches_turn nd io db userId body s m =
     (b_message body = Some (JStr m) \<and> js_trim m \<noteq> [] \<and> \<not> find_fails io
      \<and> find_session db userId (b_chatId body) = Some s
      \<and> (\<exists>r. populate_report db (relatedReportID s) = Some r \<and> \<not> nd (rp_extractedData r)))"

text \<open>The session that \<open>startChat\<close> creates.\<close>

definition new_session :: "(chat_io \<Rightarrow> report \<Rightarrow> chat_message list) \<Rightarrow> chat_io \<Rightarrow> database \<Rightarrow> string \<Rightarrow> report \<Rightarrow> chat_session" where
  "new_session seed io db userId r =
     \<lparr> chat_id = fresh_id (map chat_id (chats db)),
       chat_userID = userId,
       relatedReportID = report_id r,
       chatHistory = map (\<lambda>m. chat_entry (role m) (msg m) (timestamp m)) (seed io r) \<rparr>"

text \<open>
  A history of complete turns: a user entry followed by an assistant entry, repeatedly. A
  history is seeded with \<open>k\<close> messages when its first \<open>k\<close> entries are assistant entries and
  the rest are complete turns.
\<close>

fun paired :: "chat_message list \<Rightarrow> bool" where
  "paired [] = True"
| "paired [m] = False"
| "paired (u # a # rest) = (role u = ''user'' \<and> role a = ''assistant'' \<and> paired rest)"

definition seeded :: "nat \<Rightarrow> chat_message list \<Rightarrow> bool" where
  "seeded k h = (k \<le> length h \<and> list_all (\<lambda>m. role m = ''assistant'') (take k h) \<and> paired (drop k h))"

subsection \<open>The chat page\<close>

text \<open>
  \<open>handleSend\<close> of \<open>apps/frontend/src/pages/Chat.jsx\<close> on the list of displayed messages.
  \<open>answer\<close> is the outcome of the request: the formatted history of a response, or \<open>None\<close>
  when the request was rejected.
\<close>

record ui_message =
  sender :: string
  ui_text :: string

definition fallback_reply :: string where
  "fallback_reply = ''I'' @ [CHR 0x27] @ ''m having trouble connecting right now.''"

definition handleSend :: "ui_message list \<Rightarrow> string \<Rightarrow> ui_message list option \<Rightarrow> ui_message list" where
  "handleSend messages input answer =
     (if js_trim input = [] then messages
      else
        (let prev = messages @ [\<lparr> sender = ''user'', ui_text = input \<rparr>]
         in case answer of
              Some history \<Rightarrow> history
            | None \<Rightarrow> prev @ [\<lparr> sender = ''ai'', ui_text = fallback_reply \<rparr>]))"

section \<open>Vault overview: grouping files by patient\<close>

text \<open>
  \<open>groupFilesByPatient\<close> of the vault controller. The \<open>Map\<close> is a list of keys and groups in
  insertion order. Of a group's summary the model keeps the name, the files sorted by upload
  date (latest first), their number, their total size and the latest date; the paths are
  left out.
\<close>

record patient_group =
  group_patientName :: string
  group_files :: "vault_file list"





record patient_vault =
  pv_patientName :: string
  lastUpdated :: "int option"
  totalFiles :: nat
  totalSize :: nat
  pv_files :: "vault_file list"

definition summarize_group :: "patient_group \<Rightarrow> patient_vault" where
  "summarize_group g =
     (let sortedFiles = sort_key (\<lambda>f. - uploadDate f) (group_files g)
      in \<lparr> pv_patientName = group_patientName g,
           lastUpdated = (case sortedFiles of [] \<Rightarrow> None | latest # _ \<Rightarrow> Some (uploadDate latest)),
           totalFiles = length sortedFiles,
           totalSize = sum_list (map fileSize sortedFiles),
           pv_files = sortedFiles \<rparr>)"






section \<open>Traces and sample runs\<close>

subsection \<open>Order of events\<close>

text \<open>Every occurrence of \<open>b\<close> in a trace comes after an occurrence of \<open>a\<close>.\<close>

fun precedes :: "'a \<Rightarrow> 'a \<Rightarrow> 'a list \<Rightarrow> bool" where
  "precedes a b [] = True"
| "precedes a b (x # xs) = (x \<noteq> b \<and> (x = a \<or> precedes a b xs))"

subsection \<open>Sample runs\<close>

text \<open>
  A run in which every agent succeeds: one flagged test out of one, a summary and a
  recommendation file, and a patient found by the vault agent.
\<close>

definition sample_world :: world where
  "sample_world =
     \<lparr> extraction_proc = Closed (Some 0) ''OUTPUT_JSON:E'' [],
       summary_proc = Closed (Some 0) ''OUTPUT_FILE:/s.txt'' [],
       recommendation_proc = Closed (Some 0) ''OUTPUT_FILE:/r.txt'' [],
       vault_proc = Closed (Some 0) ''OUTPUT_JSON:V'' [],
       summary_first = True,
       disk = map_of [(''/app/m.json'', File ''M''),
                       (''/s.txt'', File ''Low hemoglobin''),
                       (''/r.txt'', File ''Eat iron'')],
       JSON_parse = map_of
         [(''E'', JObj [(''medical_json'', JStr ''m.json''), (''patient_info'', JObj []),
                        (''test_count'', JNum 1)]),
          (''M'', JObj [(''tests'', JArr [JObj [(''name'', JStr ''Hemoglobin''),
                                               (''flag'', JBool True)]])]),
          (''V'', JObj [(''patient_name'', JStr ''Jane Doe'')])],
       path_join_root = (\<lambda>p. ''/app/'' @ p),
       number_text = (\<lambda>r. ''0''),
       report_create_fails = False,
       vault_update_fails = False \<rparr>"

text \<open>
  The same run, with a record in the shape that the documentation of the chatbot agent gives
  for a lab report: the entries are held under \<open>test_results\<close>, and the one entry is
  flagged.
\<close>

definition alias_entry :: json where
  "alias_entry = JObj [(''test_name'', JStr ''Hemoglobin (Hb)''), (''result_value'', JNum (25 / 2)),
                       (''flag'', JStr ''LOW'')]"

definition alias_world :: world where
  "alias_world =
     sample_world\<lparr> JSON_parse := map_of
       [(''E'', JObj [(''medical_json'', JStr ''m.json''), (''patient_info'', JObj []),
                      (''test_count'', JNum 1)]),
        (''M'', JObj [(''report_type'', JStr ''medical_lab_report''),
                      (''test_results'', JArr [alias_entry])]),
        (''V'', JObj [(''patient_name'', JStr ''Jane Doe'')])] \<rparr>"

text \<open>The same run, with a summary file that holds two spaces and nothing else.\<close>

definition blank_summary_world :: world where
  "blank_summary_world =
     sample_world\<lparr> disk := map_of [(''/app/m.json'', File ''M''),
                                     (''/s.txt'', File ''  ''),
                                     (''/r.txt'', File ''Eat iron'')] \<rparr>"

text \<open>The same run, with a recommendation agent that prints an error.\<close>

definition failed_recommendation_world :: world where
  "failed_recommendation_world =
     sample_world\<lparr> recommendation_proc := Closed (Some 0) ''ERROR:quota'' [] \<rparr>"

text \<open>The same run, with an extraction process that cannot be started.\<close>

definition failed_extraction_world :: world where
  "failed_extraction_world = sample_world\<lparr> extraction_proc := SpawnFailed ''ENOENT'' \<rparr>"

definition empty_db :: database where
  "empty_db = \<lparr> reports = [], vaults = [], chats = [] \<rparr>"

definition sample_upload :: upload_request where
  "sample_upload =
     \<lparr> req_file = Some \<lparr> file_path = ''/up/a.pdf'', originalname = ''a.pdf'', file_size = 10 \<rparr>,
       user_id = ''u1'', received_at = 0 \<rparr>"

text \<open>
  A chat request that meets no failure: the chatbot answers \<open>Low\<close>, the user entry is
  stamped at 5000 and the assistant entry at 6000 milliseconds.
\<close>

definition sample_io :: chat_io where
  "sample_io =
     \<lparr> find_fails = False, save_fails = False, rate_find_fails = False,
       rate_now = 1000, now_user = 5000, now_bot = 6000, now_seed1 = 100, now_seed2 = 100,
       bot_exit = Some 0, bot_stdout = ''BOT_RESPONSE:Low'', bot_stderr = [] \<rparr>"

text \<open>The same request, with a chatbot process that exits with code 1.\<close>

definition failed_bot_io :: chat_io where
  "failed_bot_io = sample_io\<lparr> bot_exit := Some 1 \<rparr>"

definition sample_report :: report where
  "sample_report =
     \<lparr> report_id = 1, userID = ''u1'', rp_patientName = Some (JStr ''Jane Doe''),
       reportType = ''Blood Test'',
       rp_extractedData = JObj [(''tests'', JArr [JObj [(''name'', JStr ''Hemoglobin''),
                                                        (''flag'', JBool True)]])],
       rp_summary = ''Low hemoglobin'', rp_recommendations = ''Eat iron'', riskLevel = ''High'' \<rparr>"

definition report_db :: database where
  "report_db = \<lparr> reports = [sample_report], vaults = [], chats = [] \<rparr>"



definition start_request :: start_body where
  "start_request = \<lparr> b_reportId = Some 1 \<rparr>"

definition sample_body :: chat_body where
  "sample_body = \<lparr> b_message = Some (JStr ''Why''), b_chatId = Some 1 \<rparr>"

text \<open>A database with one report and the empty session that the Backend controller starts.\<close>

definition backend_chat_db :: database where
  "backend_chat_db = so_db (startChat_Backend sample_io report_db ''u1'' start_request)"

text \<open>
  An upload whose recommendation file is empty, and the session that the seeding controller
  starts on the report of that upload.
\<close>

definition blank_recommendation_world :: world where
  "blank_recommendation_world =
     sample_world\<lparr> disk := map_of [(''/app/m.json'', File ''M''),
                                     (''/s.txt'', File ''Low hemoglobin''),
                                     (''/r.txt'', File [])] \<rparr>"

definition seeded_once_db :: database where
  "seeded_once_db =
     so_db (startChat sample_io
              (new_db (uploadReport blank_recommendation_world empty_db sample_upload))
              ''u1'' start_request)"




text \<open>A message of 1001 characters.\<close>

definition long_body :: chat_body where
  "long_body = \<lparr> b_message = Some (JStr (replicate 1001 (CHR ''a''))), b_chatId = Some 1 \<rparr>"

section \<open>Theorems\<close>

lemma out_of_range_abnormal: "test \<noteq> JNull \<Longrightarrow> out_of_range test = Inr (abnormal_entry test)"
  by (cases test) (auto simp: out_of_range_def abnormal_entry_def)

lemma count_out_of_range_filter:
  "JNull \<notin> set ts \<Longrightarrow>
   count_out_of_range ts c = Inr (c + length (filter abnormal_entry ts))"
  by (induction ts arbitrary: c) (auto simp: out_of_range_abnormal)

lemma determineRiskLevel_thresholds:
  assumes "map_of fs ''tests'' = Some (JArr ts)" and "JNull \<notin> set ts"
  shows "determineRiskLevel (JObj fs) =
           Inr (if length ts = 0 then ''Unknown''
                else if abnormal_fraction ts > 30 / 100 then ''High''
                else if abnormal_fraction ts > 15 / 100 then ''Medium''
                else ''Normal'')"
proof -
  have c: "count_out_of_range ts 0 = Inr (length (filter abnormal_entry ts))"
    using count_out_of_range_filter [OF assms(2), of 0] by simp
  show ?thesis
  proof (cases "ts = []")
    case True
    then show ?thesis using assms(1) by (simp add: determineRiskLevel_def)
  next
    case False
    then have n: "(of_nat (length ts) :: rat) > 0" by simp
    have "(of_nat (length (filter abnormal_entry ts)) / of_nat (length ts)) * (100 :: rat) > 30
            \<longleftrightarrow> abnormal_fraction ts > 30 / 100"
      using n by (simp add: abnormal_fraction_def field_simps)
    moreover have "(of_nat (length (filter abnormal_entry ts)) / of_nat (length ts)) * (100 :: rat) > 15
            \<longleftrightarrow> abnormal_fraction ts > 15 / 100"
      using n by (simp add: abnormal_fraction_def field_simps)
    ultimately show ?thesis
      using assms(1) False c
      by (simp add: determineRiskLevel_def Let_def)
  qed
qed

subsection \<open>The upload pipeline\<close>

lemma narratives_failure:
  assumes "generateSummary w p = Inl e1 \<or> generateRecommendations w p = Inl e2"
  shows "\<exists>e. snd (narratives w p) = Inl e"
  using assms by (auto simp: narratives_def Let_def split: sum.splits)

lemma narratives_trace_success:
  "snd (narratives w p) = Inr v \<Longrightarrow> fst (narratives w p) \<in>
     {[Started Summary, Started Recommendation, Finished Summary, Finished Recommendation],
      [Started Summary, Started Recommendation, Finished Recommendation, Finished Summary]}"
  by (auto simp: narratives_def Let_def split: sum.splits if_splits)

lemma narratives_trace_failure:
  "snd (narratives w p) = Inl e \<Longrightarrow> fst (narratives w p) \<in>
     {[Started Summary, Started Recommendation, Failed Summary],
      [Started Summary, Started Recommendation, Failed Recommendation],
      [Started Summary, Started Recommendation, Finished Summary, Failed Recommendation],
      [Started Summary, Started Recommendation, Finished Recommendation, Failed Summary]}"
  by (auto simp: narratives_def Let_def split: sum.splits if_splits)

lemma processComplete_narratives_failure:
  assumes "extractData w pdf = Inr x" and "snd (narratives w (jsonPath x)) = Inl e"
  shows "snd (processComplete w pdf) = Inl e"
  using assms by (cases "narratives w (jsonPath x)") (auto simp: processComplete_def split: sum.splits)

lemma processComplete_order:
  "precedes (Finished Extraction) (Started Summary) (fst (processComplete w pdf))
   \<and> precedes (Finished Extraction) (Started Recommendation) (fst (processComplete w pdf))
   \<and> precedes (Finished Summary) (Started Vault) (fst (processComplete w pdf))
   \<and> precedes (Finished Recommendation) (Started Vault) (fst (processComplete w pdf))"
proof (cases "extractData w pdf")
  case (Inl e)
  then show ?thesis by (simp add: processComplete_def)
next
  case (Inr x)
  show ?thesis
  proof (cases "snd (narratives w (jsonPath x))")
    case (Inl e)
    from narratives_trace_failure [OF this] Inl Inr show ?thesis
      by (cases "narratives w (jsonPath x)") (auto simp: processComplete_def)
  next
    case r: (Inr v)
    from narratives_trace_success [OF this] r Inr show ?thesis
      by (cases "narratives w (jsonPath x)")
         (auto simp: processComplete_def split: sum.splits prod.splits)
  qed
qed

lemma uploadReport_pipeline_failure:
  assumes "req_file req = Some f" and "snd (processComplete w (file_path f)) = Inl e"
  shows "new_db (uploadReport w db req) = db \<and> reply (uploadReport w db req) = upload_failed e"
  using assms by (cases "processComplete w (file_path f)") (auto simp: uploadReport_def)

lemma uploadReport_trace:
  "req_file req = Some f \<Longrightarrow> trace (uploadReport w db req) = fst (processComplete w (file_path f))"
  by (cases "processComplete w (file_path f)")
     (auto simp: uploadReport_def split: sum.splits prod.splits)

lemma uploadReport_trace_nofile:
  "req_file req = None \<Longrightarrow> trace (uploadReport w db req) = []"
  by (simp add: uploadReport_def)

lemma uploadReport_report:
  assumes "reports (new_db (uploadReport w db req)) \<noteq> reports db"
  shows "\<exists>r. reports (new_db (uploadReport w db req)) = reports db @ [r]
            \<and> determineRiskLevel (rp_extractedData r) = Inr (riskLevel r)"
  using assms
  by (auto simp: uploadReport_def Report_create_def updateUserVault_def Let_def
           split: option.splits sum.splits prod.splits json.splits if_splits)

text \<open>
  When an upload persists a Report whose structured record holds its entries under \<open>tests\<close>,
  the Report's risk level is High if more than 30 percent of the entries are abnormal, Medium
  if more than 15 but at most 30 percent are, Normal otherwise, and Unknown when the array is
  empty.
\<close>

lemma tests_record_risk_level:
  assumes "reports (new_db (uploadReport w db req)) = reports db @ [r]"
    and "rp_extractedData r = JObj fs"
    and "map_of fs ''tests'' = Some (JArr ts)"
    and "JNull \<notin> set ts"
  shows "riskLevel r =
           (if length ts = 0 then ''Unknown''
            else if abnormal_fraction ts > 30 / 100 then ''High''
            else if abnormal_fraction ts > 15 / 100 then ''Medium''
            else ''Normal'')"
proof -
  have "reports (new_db (uploadReport w db req)) \<noteq> reports db"
    using assms(1) by simp
  then obtain r' where r': "reports (new_db (uploadReport w db req)) = reports db @ [r']"
      "determineRiskLevel (rp_extractedData r') = Inr (riskLevel r')"
    using uploadReport_report by blast
  then have "r' = r" using assms(1) by simp
  then have "determineRiskLevel (JObj fs) = Inr (riskLevel r)"
    using r'(2) assms(2) by simp
  then show ?thesis
    using determineRiskLevel_thresholds [OF assms(3,4)] by simp
qed

lemma tests_record_risk_level_example:
  "riskLevel (last (reports (new_db (uploadReport sample_world empty_db sample_upload)))) = ''High''"
proof -
  let ?out = "uploadReport sample_world empty_db sample_upload"
  let ?t = "JObj [(''name'', JStr ''Hemoglobin''), (''flag'', JBool True)]"
  have h1: "reports (new_db ?out) = reports empty_db @ [last (reports (new_db ?out))]"
    by code_simp
  have h2: "rp_extractedData (last (reports (new_db ?out))) = JObj [(''tests'', JArr [?t])]"
    by code_simp
  have h3: "map_of [(''tests'', JArr [?t])] ''tests'' = Some (JArr [?t])"
    by simp
  have h4: "JNull \<notin> set [?t]"
    by simp
  show ?thesis
    using tests_record_risk_level [OF h1 h2 h3 h4]
    by (simp add: abnormal_fraction_def abnormal_entry_def)
qed

lemma determineRiskLevel_no_tests:
  "map_of fs ''tests'' = None \<Longrightarrow> determineRiskLevel (JObj fs) = Inr ''Unknown''"
  by (simp add: determineRiskLevel_def)

text \<open>
  A record that holds its entries under another of the keys that \<open>_extractTests\<close> accepts is
  given the risk level Unknown, whatever its entries are.
\<close>

lemma other_key_risk_unknown:
  assumes "reports (new_db (uploadReport w db req)) = reports db @ [r]"
    and "rp_extractedData r = JObj fs"
    and "map_of fs ''tests'' = None"
  shows "riskLevel r = ''Unknown''"
proof -
  have "reports (new_db (uploadReport w db req)) \<noteq> reports db"
    using assms(1) by simp
  then obtain r' where r': "reports (new_db (uploadReport w db req)) = reports db @ [r']"
      "determineRiskLevel (rp_extractedData r') = Inr (riskLevel r')"
    using uploadReport_report by blast
  then have "r' = r" using assms(1) by simp
  then have "determineRiskLevel (JObj fs) = Inr (riskLevel r)"
    using r'(2) assms(2) by simp
  then show ?thesis
    using determineRiskLevel_no_tests [OF assms(3)] by simp
qed

text \<open>
  C1 fails in the code for a record whose entries are not under the key \<open>tests\<close>. The upload
  of a document whose extracted JSON is \<open>{report_type, test_results: [entry]}\<close>, with the one
  entry flagged, answers 201 and persists a Report whose record has one test entry (the one
  that \<open>_extractTests\<close> returns and the chat works on), all of its entries abnormal, and whose
  risk level is Unknown where the policy of C1 gives High.
\<close>

theorem alias_record_risk_unknown:
  "status (reply (uploadReport alias_world empty_db sample_upload)) = 201
   \<and> map riskLevel (reports (new_db (uploadReport alias_world empty_db sample_upload))) = [''Unknown'']
   \<and> map (\<lambda>r. extractTests (rp_extractedData r))
        (reports (new_db (uploadReport alias_world empty_db sample_upload))) = [[alias_entry]]
   \<and> abnormal_fraction [alias_entry] = 1
   \<and> determineRiskLevel (JObj [(''tests'', JArr [alias_entry])]) = Inr ''High''"
proof -
  have a: "status (reply (uploadReport alias_world empty_db sample_upload)) = 201"
    by code_simp
  have b: "map riskLevel (reports (new_db (uploadReport alias_world empty_db sample_upload))) = [''Unknown'']"
    by code_simp
  have c: "map (\<lambda>r. extractTests (rp_extractedData r))
        (reports (new_db (uploadReport alias_world empty_db sample_upload))) = [[alias_entry]]"
    by code_simp
  have d: "abnormal_fraction [alias_entry] = 1"
    by (simp add: abnormal_fraction_def abnormal_entry_def alias_entry_def)
  have e: "determineRiskLevel (JObj [(''tests'', JArr [alias_entry])]) = Inr ''High''"
    by code_simp
  show ?thesis
    using a b c d e by simp
qed

text \<open>
  C2. In a run whose extraction succeeded and in which the summary generation or the
  recommendation generation fails, the upload answers with status 500 and leaves the
  database as it was: no Report is persisted.
\<close>

theorem narrative_failure_no_report:
  assumes "req_file req = Some f"
    and "extractData w (file_path f) = Inr x"
    and "generateSummary w (jsonPath x) = Inl e1 \<or> generateRecommendations w (jsonPath x) = Inl e2"
  shows "new_db (uploadReport w db req) = db
       \<and> status (reply (uploadReport w db req)) = 500
       \<and> \<not> success (reply (uploadReport w db req))"
proof -
  obtain e where "snd (narratives w (jsonPath x)) = Inl e"
    using narratives_failure [OF assms(3)] by blast
  then have "snd (processComplete w (file_path f)) = Inl e"
    using processComplete_narratives_failure [OF assms(2)] by blast
  then show ?thesis
    using uploadReport_pipeline_failure [OF assms(1)] by (simp add: upload_failed_def)
qed

theorem narrative_failure_no_report_witness:
  "new_db (uploadReport failed_recommendation_world empty_db sample_upload) = empty_db
   \<and> status (reply (uploadReport failed_recommendation_world empty_db sample_upload)) = 500"
proof -
  let ?f = "\<lparr> file_path = ''/up/a.pdf'', originalname = ''a.pdf'', file_size = 10 \<rparr>"
  let ?x = "\<lparr> data = JObj [(''tests'', JArr [JObj [(''name'', JStr ''Hemoglobin''),
                                                       (''flag'', JBool True)]])],
               jsonPath = ''m.json'', patientInfo = Some (JObj []),
               testCount = Some (JNum 1) \<rparr>"
  have h1: "req_file sample_upload = Some ?f"
    by (simp add: sample_upload_def)
  have h2: "extractData failed_recommendation_world (file_path ?f) = Inr ?x"
    by code_simp
  have h3: "generateSummary failed_recommendation_world (jsonPath ?x) = Inl (Error ''unused'')
          \<or> generateRecommendations failed_recommendation_world (jsonPath ?x)
               = Inl (Error ''Recommendation generation failed: quota'')"
    by code_simp
  show ?thesis
    using narrative_failure_no_report [OF h1 h2 h3, of empty_db] by simp
qed

text \<open>
  C8. In every run, the summary and the recommendation generation start only after the
  extraction has finished, the vault stage starts only after both generations have finished,
  and when the extraction fails the run consists of the failed extraction alone and the
  database is left as it was.
\<close>

theorem pipeline_stage_order:
  "precedes (Finished Extraction) (Started Summary) (trace (uploadReport w db req))
   \<and> precedes (Finished Extraction) (Started Recommendation) (trace (uploadReport w db req))
   \<and> precedes (Finished Summary) (Started Vault) (trace (uploadReport w db req))
   \<and> precedes (Finished Recommendation) (Started Vault) (trace (uploadReport w db req))
   \<and> (\<forall>f e. req_file req = Some f \<and> extractData w (file_path f) = Inl e \<longrightarrow>
         trace (uploadReport w db req) = [Started Extraction, Failed Extraction]
         \<and> new_db (uploadReport w db req) = db)"
proof (cases "req_file req")
  case None
  then show ?thesis by (simp add: uploadReport_trace_nofile)
next
  case (Some f)
  have "trace (uploadReport w db req) = [Started Extraction, Failed Extraction]
         \<and> new_db (uploadReport w db req) = db" if "extractData w (file_path f) = Inl e" for e
    using that Some by (simp add: uploadReport_def processComplete_def)
  then show ?thesis
    using Some processComplete_order [of w "file_path f"] by (auto simp: uploadReport_trace)
qed

theorem pipeline_stage_order_witness:
  "trace (uploadReport failed_extraction_world empty_db sample_upload)
     = [Started Extraction, Failed Extraction]
   \<and> new_db (uploadReport failed_extraction_world empty_db sample_upload) = empty_db
   \<and> precedes (Finished Summary) (Started Vault)
        (trace (uploadReport sample_world empty_db sample_upload))
   \<and> Started Vault \<in> set (trace (uploadReport sample_world empty_db sample_upload))"
proof -
  let ?f = "\<lparr> file_path = ''/up/a.pdf'', originalname = ''a.pdf'', file_size = 10 \<rparr>"
  have h1: "req_file sample_upload = Some ?f"
    by (simp add: sample_upload_def)
  have h2: "extractData failed_extraction_world (file_path ?f)
              = Inl (Error ''Data extraction failed: Failed to start Python: ENOENT'')"
    by code_simp
  have h3: "Started Vault \<in> set (trace (uploadReport sample_world empty_db sample_upload))"
    by code_simp
  show ?thesis
    using pipeline_stage_order [of failed_extraction_world empty_db sample_upload]
          pipeline_stage_order [of sample_world empty_db sample_upload] h1 h2 h3
    by blast
qed

text \<open>
  C9 as stated fails: a summary file that holds only white space is accepted, the run
  completes with status 201, and the Report is persisted with an empty summary.
\<close>

theorem blank_summary_counterexample:
  "generateSummary blank_summary_world ''m.json'' = Inr \<lparr> n_text = ''  '', n_filePath = ''/s.txt'' \<rparr>
   \<and> js_trim ''  '' = []
   \<and> status (reply (uploadReport blank_summary_world empty_db sample_upload)) = 201
   \<and> map rp_summary (reports (new_db (uploadReport blank_summary_world empty_db sample_upload))) = [[]]"
  by code_simp

text \<open>
  C9, amended. A narrative generation whose process exits with code 0 and whose output names,
  after the marker \<open>OUTPUT_FILE:\<close>, a file that can be read succeeds with the text of that
  file, whatever the text is: the text is not inspected, so an empty or blank text is not a
  failure.
\<close>

theorem narrative_text_not_inspected:
  assumes "summary_proc w = Closed (Some 0) out err"
    and "marked_line out ''OUTPUT_FILE:'' ''No output file path returned from Summary agent'' = Inr p"
    and "files w p = Some (File c)"
    and "recommendation_proc w = Closed (Some 0) out' err'"
    and "marked_line out' ''OUTPUT_FILE:'' ''No output file path returned from Recommendation agent'' = Inr p'"
    and "files w p' = Some (File c')"
    and "p' \<noteq> []"
  shows "generateSummary w j = Inr \<lparr> n_text = c, n_filePath = p \<rparr>
       \<and> generateRecommendations w j = Inr \<lparr> n_text = c', n_filePath = p' \<rparr>
       \<and> snd (narratives w j) = Inr (\<lparr> n_text = c, n_filePath = p \<rparr>, \<lparr> n_text = c', n_filePath = p' \<rparr>)"
proof -
  have s: "generateSummary w j = Inr \<lparr> n_text = c, n_filePath = p \<rparr>"
    using assms(1-3)
    by (simp add: generateSummary_def rethrow_def and_then_def existsSync_def readFile_def)
  have r: "generateRecommendations w j = Inr \<lparr> n_text = c', n_filePath = p' \<rparr>"
    using assms(4-7)
    by (simp add: generateRecommendations_def rethrow_def and_then_def existsSync_def readFile_def)
  show ?thesis
    using s r by (simp add: narratives_def Let_def)
qed

theorem narrative_text_not_inspected_witness:
  "snd (narratives blank_summary_world ''m.json'')
     = Inr (\<lparr> n_text = ''  '', n_filePath = ''/s.txt'' \<rparr>,
            \<lparr> n_text = ''Eat iron'', n_filePath = ''/r.txt'' \<rparr>)"
proof -
  have h1: "summary_proc blank_summary_world = Closed (Some 0) ''OUTPUT_FILE:/s.txt'' []"
    by (simp add: blank_summary_world_def sample_world_def)
  have h2: "marked_line ''OUTPUT_FILE:/s.txt'' ''OUTPUT_FILE:''
              ''No output file path returned from Summary agent'' = Inr ''/s.txt''"
    by code_simp
  have h3: "files blank_summary_world ''/s.txt'' = Some (File ''  '')"
    by (simp add: files_def blank_summary_world_def sample_world_def)
  have h4: "recommendation_proc blank_summary_world = Closed (Some 0) ''OUTPUT_FILE:/r.txt'' []"
    by (simp add: blank_summary_world_def sample_world_def)
  have h5: "marked_line ''OUTPUT_FILE:/r.txt'' ''OUTPUT_FILE:''
              ''No output file path returned from Recommendation agent'' = Inr ''/r.txt''"
    by code_simp
  have h6: "files blank_summary_world ''/r.txt'' = Some (File ''Eat iron'')"
    by (simp add: files_def blank_summary_world_def sample_world_def)
  have h7: "''/r.txt'' \<noteq> []"
    by simp
  show ?thesis
    using narrative_text_not_inspected [OF h1 h2 h3 h4 h5 h6 h7] by simp
qed

subsection \<open>Strings\<close>


lemma js_trim_Nil: "js_trim [] = []"
  by (simp add: js_trim_def)


lemma is_space_lower [simp]: "is_space (lower_char c) = is_space c"
  by (auto simp: lower_char_def is_space_def)



subsection \<open>Chat history\<close>

lemma paired_append: "paired xs \<Longrightarrow> paired ys \<Longrightarrow> paired (xs @ ys)"
  by (induction xs rule: paired.induct) auto

lemma paired_even: "paired xs \<Longrightarrow> even (length xs)"
  by (induction xs rule: paired.induct) auto

lemma seeded_parity: "seeded k h \<Longrightarrow> even (length h) \<longleftrightarrow> even k"
proof -
  assume s: "seeded k h"
  then have "even (length (drop k h))" using paired_even [of "drop k h"] by (simp add: seeded_def)
  moreover have "length h = k + length (drop k h)" using s by (simp add: seeded_def)
  ultimately show ?thesis by (metis even_add)
qed

text \<open>A history of seeded assistant messages alone, as \<open>startChat\<close> creates it, is seeded.\<close>

lemma seeds_seeded: "list_all (\<lambda>m. role m = ''assistant'') h \<Longrightarrow> seeded (length h) h"
  by (simp add: seeded_def)

lemma next_history_bound: "length (next_history h u a) \<le> 20"
  by (simp add: next_history_def Let_def)

lemma next_history_suffix: "suffix (next_history h u a) (h @ [u, a])"
  by (simp add: next_history_def Let_def suffix_drop)

lemma next_history_last: "next_history h u a \<noteq> [] \<and> last (next_history h u a) = a"
  by (auto simp: next_history_def Let_def)

lemma next_history_seeded:
  assumes "seeded k h" and "k \<le> 2" and "length h \<le> 20" and "role u = ''user''" and "role a = ''assistant''"
  shows "\<exists>k'. k' \<le> k \<and> seeded k' (next_history h u a)"
proof -
  have p: "paired [u, a]" using assms(4,5) by simp
  consider "length h \<le> 18" | "length h = 19" | "length h = 20" using assms(3) by linarith
  then show ?thesis
  proof cases
    case 1
    then have "next_history h u a = h @ [u, a]" by (simp add: next_history_def Let_def)
    moreover have "seeded k (h @ [u, a])"
      using assms(1) p by (auto simp: seeded_def paired_append)
    ultimately show ?thesis by auto
  next
    case 2
    then have odd: "odd k" using seeded_parity [OF assms(1)] by simp
    then have k: "k = 1" using assms(2) by presburger
    have "next_history h u a = drop 1 h @ [u, a]" using 2 by (simp add: next_history_def Let_def)
    moreover have "paired (drop 1 h)" using assms(1) k by (simp add: seeded_def)
    ultimately have "seeded 0 (next_history h u a)" using p by (simp add: seeded_def paired_append)
    then show ?thesis by auto
  next
    case 3
    then have ev: "even k" using seeded_parity [OF assms(1)] by simp
    have nh: "next_history h u a = drop 2 h @ [u, a]" using 3 by (simp add: next_history_def Let_def)
    have "k = 0 \<or> k = 2" using ev assms(2) by presburger
    then have "paired (drop 2 h)"
    proof
      assume "k = 0"
      then have ph: "paired h" using assms(1) by (simp add: seeded_def)
      obtain x y rest where "h = x # y # rest" using 3 by (cases h; cases "tl h") auto
      then show ?thesis using ph by simp
    next
      assume "k = 2"
      then show ?thesis using assms(1) by (simp add: seeded_def)
    qed
    then have "seeded 0 (next_history h u a)" using nh p by (simp add: seeded_def paired_append)
    then show ?thesis by auto
  qed
qed

lemma find_replaced:
  assumes "find (\<lambda>c. chat_id c = i \<and> chat_userID c = u) xs = Some s"
    and "chat_id s' = i" and "chat_userID s' = u"
  shows "find (\<lambda>c. chat_id c = i \<and> chat_userID c = u) (map (\<lambda>c. if chat_id c = i then s' else c) xs) = Some s'"
  using assms by (induction xs) (auto split: if_splits)

lemma find_session_saved:
  assumes "find_session db userId cid = Some s"
  shows "find_session (db\<lparr>chats := map (\<lambda>c. if chat_id c = chat_id s then s\<lparr>chatHistory := H\<rparr> else c) (chats db)\<rparr>) userId cid
           = Some (s\<lparr>chatHistory := H\<rparr>)"
proof -
  obtain i where i: "cid = Some i" and f: "find (\<lambda>c. chat_id c = i \<and> chat_userID c = userId) (chats db) = Some s"
    using assms by (auto simp: find_session_def split: option.splits)
  have s: "chat_id s = i \<and> chat_userID s = userId"
    using f by (auto simp: find_Some_iff)
  show ?thesis
    using find_replaced [OF f, of "s\<lparr>chatHistory := H\<rparr>"] s i by (simp add: find_session_def)
qed

lemma sendMessage_with_turn:
  assumes "reaches_turn nd io db userId body s m"
  shows "sendMessage_with nd io db userId body = turn_outcome io db s m"
proof -
  have "m \<noteq> []" using assms js_trim_Nil by (auto simp: reaches_turn_def)
  then show ?thesis
    using assms
    by (auto simp: reaches_turn_def sendMessage_with_def turn_outcome_def next_history_def Let_def
             split: sum.splits)
qed

lemma sendMessage_with_no_string:
  assumes "\<not> (\<exists>m. b_message body = Some (JStr m) \<and> js_trim m \<noteq> [])"
  shows "ai_calls (sendMessage_with nd io db userId body) = 0
       \<and> status (co_reply (sendMessage_with nd io db userId body)) \<noteq> 200
       \<and> co_db (sendMessage_with nd io db userId body) = db"
proof (cases "b_message body")
  case None
  then show ?thesis by (simp add: sendMessage_with_def chat_reject_def)
next
  case (Some v)
  then show ?thesis
    using assms
    by (cases v) (simp_all add: sendMessage_with_def chat_reject_def chat_failed_def)
qed

lemma sendMessage_with_early:
  assumes "b_message body = Some (JStr m)" and "js_trim m \<noteq> []"
    and "\<not> (\<exists>s. reaches_turn nd io db userId body s m)"
  shows "ai_calls (sendMessage_with nd io db userId body) = 0
       \<and> status (co_reply (sendMessage_with nd io db userId body)) \<noteq> 200
       \<and> co_db (sendMessage_with nd io db userId body) = db"
proof -
  have m: "m \<noteq> []" using assms(2) js_trim_Nil by auto
  show ?thesis
  proof (cases "find_fails io")
    case True
    then show ?thesis using assms(1,2) m by (simp add: sendMessage_with_def chat_failed_def)
  next
    case ff: False
    show ?thesis
    proof (cases "find_session db userId (b_chatId body)")
      case None
      then show ?thesis using assms(1,2) m ff by (simp add: sendMessage_with_def chat_reject_def)
    next
      case (Some s)
      show ?thesis
      proof (cases "populate_report db (relatedReportID s)")
        case None
        then show ?thesis using assms(1,2) m ff Some by (simp add: sendMessage_with_def chat_failed_def)
      next
        case r: (Some r)
        then have "nd (rp_extractedData r)"
          using assms Some ff by (auto simp: reaches_turn_def)
        then show ?thesis using assms(1,2) m ff Some r by (simp add: sendMessage_with_def chat_reject_def)
      qed
    qed
  qed
qed

lemma sendMessage_with_cases:
  "(\<exists>s m. reaches_turn nd io db userId body s m)
   \<or> (ai_calls (sendMessage_with nd io db userId body) = 0
       \<and> status (co_reply (sendMessage_with nd io db userId body)) \<noteq> 200
       \<and> co_db (sendMessage_with nd io db userId body) = db)"
  using sendMessage_with_no_string [of body nd io db userId]
        sendMessage_with_early [of body _ nd io db userId]
  by blast

lemma turn_outcome_success:
  assumes "status (co_reply (turn_outcome io db s m)) = 200"
  shows "\<exists>b. callChatBot (bot_exit io) (bot_stdout io) (bot_stderr io) = Inr b
           \<and> co_db (turn_outcome io db s m)
               = db\<lparr>chats := map (\<lambda>c. if chat_id c = chat_id s
                                        then s\<lparr>chatHistory := next_history (chatHistory s)
                                                  (chat_entry ''user'' (js_trim m) (now_user io))
                                                  (chat_entry ''assistant'' b (now_bot io))\<rparr>
                                        else c) (chats db)\<rparr>"
  using assms
  by (auto simp: turn_outcome_def chat_failed_def save_session_def split: sum.splits if_splits)

lemma turn_outcome_failure:
  assumes "status (co_reply (turn_outcome io db s m)) \<noteq> 200"
  shows "co_db (turn_outcome io db s m) = db"
  using assms
  by (auto simp: turn_outcome_def chat_failed_def save_session_def split: sum.splits if_splits)

lemma turn_outcome_bot_failure:
  assumes "callChatBot (bot_exit io) (bot_stdout io) (bot_stderr io) = Inl e"
  shows "turn_outcome io db s m = \<lparr> co_db = db, co_reply = chat_failed e, ai_calls = 1 \<rparr>"
  using assms by (simp add: turn_outcome_def)

lemma sendMessage_with_success:
  assumes "status (co_reply (sendMessage_with nd io db userId body)) = 200"
  shows "\<exists>s m b. find_session db userId (b_chatId body) = Some s
           \<and> co_db (sendMessage_with nd io db userId body)
               = db\<lparr>chats := map (\<lambda>c. if chat_id c = chat_id s
                                        then s\<lparr>chatHistory := next_history (chatHistory s)
                                                  (chat_entry ''user'' (js_trim m) (now_user io))
                                                  (chat_entry ''assistant'' b (now_bot io))\<rparr>
                                        else c) (chats db)\<rparr>"
proof -
  obtain s m where r: "reaches_turn nd io db userId body s m"
    using sendMessage_with_cases [of nd io db userId body] assms by auto
  then have eq: "sendMessage_with nd io db userId body = turn_outcome io db s m"
    by (rule sendMessage_with_turn)
  then have "status (co_reply (turn_outcome io db s m)) = 200" using assms by simp
  from turn_outcome_success [OF this] eq r show ?thesis
    by (auto simp: reaches_turn_def)
qed

lemma next_history_drop:
  "next_history h u a = drop (length h + 2 - 20) (h @ [u, a])"
  by (simp add: next_history_def Let_def)

lemma next_history_dropped:
  assumes "seeded k h" and "k \<le> 2" and "length h \<le> 20"
    and "role u = ''user''" and "role a = ''assistant''"
  shows "(length h \<le> 18 \<longrightarrow> seeded k (next_history h u a))
       \<and> (18 < length h \<longrightarrow>
             (length h + 2 - 20 = k \<or> (k = 0 \<and> length h + 2 - 20 = 2))
             \<and> paired (next_history h u a))"
proof -
  have p: "paired [u, a]" using assms(4,5) by simp
  consider "length h \<le> 18" | "length h = 19" | "length h = 20" using assms(3) by linarith
  then show ?thesis
  proof cases
    case 1
    then have "next_history h u a = h @ [u, a]" by (simp add: next_history_def Let_def)
    moreover have "seeded k (h @ [u, a])"
      using assms(1) p by (auto simp: seeded_def paired_append)
    ultimately show ?thesis using 1 by simp
  next
    case 2
    then have "odd k" using seeded_parity [OF assms(1)] by simp
    then have k: "k = 1" using assms(2) by presburger
    have "next_history h u a = drop 1 h @ [u, a]" using 2 by (simp add: next_history_def Let_def)
    moreover have "paired (drop 1 h)" using assms(1) k by (simp add: seeded_def)
    ultimately have "paired (next_history h u a)" using p by (simp add: paired_append)
    then show ?thesis using 2 k by simp
  next
    case 3
    then have ev: "even k" using seeded_parity [OF assms(1)] by simp
    have nh: "next_history h u a = drop 2 h @ [u, a]" using 3 by (simp add: next_history_def Let_def)
    have k02: "k = 0 \<or> k = 2" using ev assms(2) by presburger
    then have "paired (drop 2 h)"
    proof
      assume "k = 0"
      then have ph: "paired h" using assms(1) by (simp add: seeded_def)
      obtain x y rest where "h = x # y # rest" using 3 by (cases h; cases "tl h") auto
      then show ?thesis using ph by simp
    next
      assume "k = 2"
      then show ?thesis using assms(1) by (simp add: seeded_def)
    qed
    then have "paired (next_history h u a)" using nh p by (simp add: paired_append)
    then show ?thesis using 3 k02 by auto
  qed
qed

lemma sendMessage_with_completed:
  assumes "status (co_reply (sendMessage_with nd io db userId body)) = 200"
  shows "\<exists>s m b. find_session db userId (b_chatId body) = Some s
           \<and> b_message body = Some (JStr m)
           \<and> callChatBot (bot_exit io) (bot_stdout io) (bot_stderr io) = Inr b
           \<and> co_db (sendMessage_with nd io db userId body)
               = db\<lparr>chats := map (\<lambda>c. if chat_id c = chat_id s
                                        then s\<lparr>chatHistory := next_history (chatHistory s)
                                                  (chat_entry ''user'' (js_trim m) (now_user io))
                                                  (chat_entry ''assistant'' b (now_bot io))\<rparr>
                                        else c) (chats db)\<rparr>"
proof -
  obtain s m where r: "reaches_turn nd io db userId body s m"
    using sendMessage_with_cases [of nd io db userId body] assms by auto
  then have eq: "sendMessage_with nd io db userId body = turn_outcome io db s m"
    by (rule sendMessage_with_turn)
  then have "status (co_reply (turn_outcome io db s m)) = 200" using assms by simp
  from turn_outcome_success [OF this] eq r show ?thesis
    by (auto simp: reaches_turn_def)
qed

text \<open>
  C3 as stated fails: a report with a summary and no recommendation seeds its session with one
  message, so the history has length 1 while no turn is in flight, and length 3 after a
  completed turn.
\<close>

theorem odd_history_counterexample:
  "map (\<lambda>c. length (chatHistory c)) (chats seeded_once_db) = [1]
   \<and> status (co_reply (sendMessage sample_io seeded_once_db ''u1'' sample_body)) = 200
   \<and> map (\<lambda>c. length (chatHistory c))
        (chats (co_db (sendMessage sample_io seeded_once_db ''u1'' sample_body))) = [3]"
  by code_simp

text \<open>
  C3, amended. After a completed turn the stored history is the old history followed by the
  user entry and the assistant entry of the turn, without its first \<open>n + 2 - 20\<close> entries when
  the old history has \<open>n\<close> entries: the most recent 20 entries are kept and the oldest are
  dropped first. When the old history was \<open>k\<close> seeded assistant messages (at most two)
  followed by complete turns, a turn that drops nothing leaves the \<open>k\<close> seeded messages
  followed by complete turns, and a turn that drops entries drops exactly the seeded messages
  or exactly the first turn and leaves complete turns only: no turn is cut in two. The length
  is even exactly when entries were dropped or the number of seeded messages is even.
\<close>

theorem completed_turn_history:
  assumes "find_session db userId (b_chatId body) = Some s"
    and "status (co_reply (sendMessage_with nd io db userId body)) = 200"
  shows "\<exists>s' m b.
           b_message body = Some (JStr m)
         \<and> callChatBot (bot_exit io) (bot_stdout io) (bot_stderr io) = Inr b
         \<and> find_session (co_db (sendMessage_with nd io db userId body)) userId (b_chatId body) = Some s'
         \<and> chatHistory s'
             = drop (length (chatHistory s) + 2 - 20)
                 (chatHistory s @ [chat_entry ''user'' (js_trim m) (now_user io),
                                   chat_entry ''assistant'' b (now_bot io)])
         \<and> length (chatHistory s') \<le> 20
         \<and> (\<forall>k. seeded k (chatHistory s) \<and> k \<le> 2 \<and> length (chatHistory s) \<le> 20 \<longrightarrow>
                (length (chatHistory s) \<le> 18 \<longrightarrow> seeded k (chatHistory s'))
              \<and> (18 < length (chatHistory s) \<longrightarrow>
                    (length (chatHistory s) + 2 - 20 = k
                     \<or> (k = 0 \<and> length (chatHistory s) + 2 - 20 = 2))
                    \<and> paired (chatHistory s'))
              \<and> (even (length (chatHistory s')) \<longleftrightarrow> (18 < length (chatHistory s) \<or> even k)))"
proof -
  obtain s0 m b where s0: "find_session db userId (b_chatId body) = Some s0"
    and bm: "b_message body = Some (JStr m)"
    and bot: "callChatBot (bot_exit io) (bot_stdout io) (bot_stderr io) = Inr b"
    and db0: "co_db (sendMessage_with nd io db userId body)
               = db\<lparr>chats := map (\<lambda>c. if chat_id c = chat_id s0
                                        then s0\<lparr>chatHistory := next_history (chatHistory s0)
                                                  (chat_entry ''user'' (js_trim m) (now_user io))
                                                  (chat_entry ''assistant'' b (now_bot io))\<rparr>
                                        else c) (chats db)\<rparr>"
    using sendMessage_with_completed [OF assms(2)] by blast
  have "s0 = s" using s0 assms(1) by simp
  note db' = db0 [unfolded this]
  define u where "u = chat_entry ''user'' (js_trim m) (now_user io)"
  define a where "a = chat_entry ''assistant'' b (now_bot io)"
  define h where "h = next_history (chatHistory s) u a"
  define s' where "s' = s\<lparr>chatHistory := h\<rparr>"
  have f: "find_session (co_db (sendMessage_with nd io db userId body)) userId (b_chatId body) = Some s'"
    unfolding db' s'_def h_def u_def a_def by (rule find_session_saved [OF assms(1)])
  have hs: "chatHistory s' = h" by (simp add: s'_def)
  have ru: "role u = ''user''" and ra: "role a = ''assistant''"
    by (simp_all add: chat_entry_def u_def a_def)
  have eq: "h = drop (length (chatHistory s) + 2 - 20) (chatHistory s @ [u, a])"
    unfolding h_def by (rule next_history_drop)
  have b20: "length h \<le> 20" unfolding h_def by (rule next_history_bound)
  have inv: "\<forall>k. seeded k (chatHistory s) \<and> k \<le> 2 \<and> length (chatHistory s) \<le> 20 \<longrightarrow>
                (length (chatHistory s) \<le> 18 \<longrightarrow> seeded k h)
              \<and> (18 < length (chatHistory s) \<longrightarrow>
                    (length (chatHistory s) + 2 - 20 = k
                     \<or> (k = 0 \<and> length (chatHistory s) + 2 - 20 = 2))
                    \<and> paired h)
              \<and> (even (length h) \<longleftrightarrow> (18 < length (chatHistory s) \<or> even k))"
  proof (intro allI impI)
    fix k assume k: "seeded k (chatHistory s) \<and> k \<le> 2 \<and> length (chatHistory s) \<le> 20"
    then have d: "(length (chatHistory s) \<le> 18 \<longrightarrow> seeded k h)
              \<and> (18 < length (chatHistory s) \<longrightarrow>
                    (length (chatHistory s) + 2 - 20 = k
                     \<or> (k = 0 \<and> length (chatHistory s) + 2 - 20 = 2))
                    \<and> paired h)"
      unfolding h_def using next_history_dropped [of k "chatHistory s" u a] ru ra by blast
    have "even (length h) \<longleftrightarrow> (18 < length (chatHistory s) \<or> even k)"
    proof (cases "length (chatHistory s) \<le> 18")
      case True
      then have "seeded k h" using d by simp
      then show ?thesis using seeded_parity True by auto
    next
      case False
      then have "paired h" using d by simp
      then show ?thesis using paired_even False by auto
    qed
    then show "(length (chatHistory s) \<le> 18 \<longrightarrow> seeded k h)
              \<and> (18 < length (chatHistory s) \<longrightarrow>
                    (length (chatHistory s) + 2 - 20 = k
                     \<or> (k = 0 \<and> length (chatHistory s) + 2 - 20 = 2))
                    \<and> paired h)
              \<and> (even (length h) \<longleftrightarrow> (18 < length (chatHistory s) \<or> even k))"
      using d by blast
  qed
  have "b_message body = Some (JStr m)
         \<and> callChatBot (bot_exit io) (bot_stdout io) (bot_stderr io) = Inr b
         \<and> find_session (co_db (sendMessage_with nd io db userId body)) userId (b_chatId body) = Some s'
         \<and> chatHistory s'
             = drop (length (chatHistory s) + 2 - 20)
                 (chatHistory s @ [chat_entry ''user'' (js_trim m) (now_user io),
                                   chat_entry ''assistant'' b (now_bot io)])
         \<and> length (chatHistory s') \<le> 20
         \<and> (\<forall>k. seeded k (chatHistory s) \<and> k \<le> 2 \<and> length (chatHistory s) \<le> 20 \<longrightarrow>
                (length (chatHistory s) \<le> 18 \<longrightarrow> seeded k (chatHistory s'))
              \<and> (18 < length (chatHistory s) \<longrightarrow>
                    (length (chatHistory s) + 2 - 20 = k
                     \<or> (k = 0 \<and> length (chatHistory s) + 2 - 20 = 2))
                    \<and> paired (chatHistory s'))
              \<and> (even (length (chatHistory s')) \<longleftrightarrow> (18 < length (chatHistory s) \<or> even k)))"
    unfolding hs using bm bot f eq [unfolded u_def a_def] b20 inv by blast
  then show ?thesis by blast
qed

theorem completed_turn_history_witness:
  "\<exists>s'. find_session (co_db (sendMessage sample_io seeded_once_db ''u1'' sample_body)) ''u1'' (Some 1)
            = Some s'
        \<and> chatHistory s'
            = chatHistory (the (find_session seeded_once_db ''u1'' (Some 1)))
                @ [chat_entry ''user'' ''Why'' 5000, chat_entry ''assistant'' ''Low'' 6000]
        \<and> seeded 1 (chatHistory s')
        \<and> odd (length (chatHistory s'))"
proof -
  let ?nd = "\<lambda>ed. length (extractTests ed) = 0"
  let ?s = "the (find_session seeded_once_db ''u1'' (Some 1))"
  have c: "b_chatId sample_body = Some 1"
    by (simp add: sample_body_def)
  have h1: "find_session seeded_once_db ''u1'' (b_chatId sample_body) = Some ?s"
    by code_simp
  have h2: "status (co_reply (sendMessage_with ?nd sample_io seeded_once_db ''u1'' sample_body)) = 200"
    by code_simp
  have h3: "seeded 1 (chatHistory ?s) \<and> (1::nat) \<le> 2 \<and> length (chatHistory ?s) \<le> 20
            \<and> length (chatHistory ?s) = 1"
    by code_simp
  have m: "b_message sample_body = Some (JStr ''Why'')"
    by (simp add: sample_body_def)
  have t: "js_trim ''Why'' = ''Why''"
    by code_simp
  have bot: "callChatBot (bot_exit sample_io) (bot_stdout sample_io) (bot_stderr sample_io) = Inr ''Low''"
    by code_simp
  have n: "now_user sample_io = 5000 \<and> now_bot sample_io = 6000"
    by (simp add: sample_io_def)
  from completed_turn_history [OF h1 h2] obtain s' m' b' where
    r: "b_message sample_body = Some (JStr m')"
       "callChatBot (bot_exit sample_io) (bot_stdout sample_io) (bot_stderr sample_io) = Inr b'"
       "find_session (co_db (sendMessage_with ?nd sample_io seeded_once_db ''u1'' sample_body)) ''u1''
          (b_chatId sample_body) = Some s'"
       "chatHistory s'
             = drop (length (chatHistory ?s) + 2 - 20)
                 (chatHistory ?s @ [chat_entry ''user'' (js_trim m') (now_user sample_io),
                                    chat_entry ''assistant'' b' (now_bot sample_io)])"
       "\<forall>k. seeded k (chatHistory ?s) \<and> k \<le> 2 \<and> length (chatHistory ?s) \<le> 20 \<longrightarrow>
                (length (chatHistory ?s) \<le> 18 \<longrightarrow> seeded k (chatHistory s'))
              \<and> (18 < length (chatHistory ?s) \<longrightarrow>
                    (length (chatHistory ?s) + 2 - 20 = k
                     \<or> (k = 0 \<and> length (chatHistory ?s) + 2 - 20 = 2))
                    \<and> paired (chatHistory s'))
              \<and> (even (length (chatHistory s')) \<longleftrightarrow> (18 < length (chatHistory ?s) \<or> even k))"
    by blast
  have m': "m' = ''Why''" and b': "b' = ''Low''"
    using r(1,2) m bot by simp_all
  have e: "chatHistory s' = chatHistory ?s @ [chat_entry ''user'' ''Why'' 5000, chat_entry ''assistant'' ''Low'' 6000]"
    using r(4) h3 m' b' t n by simp
  have "seeded 1 (chatHistory s') \<and> odd (length (chatHistory s'))"
    using r(5) h3 by auto
  then show ?thesis
    using r(3) e unfolding sendMessage_def c by blast
qed

text \<open>
  C4 as stated fails: when the chatbot call fails after the user entry was pushed, the stored
  history of the session is as empty as before.
\<close>

theorem unsaved_user_message_counterexample:
  "map chatHistory (chats backend_chat_db) = [[]]
   \<and> ai_calls (sendMessage_Backend failed_bot_io backend_chat_db ''u1'' sample_body) = 1
   \<and> map chatHistory (chats (co_db (sendMessage_Backend failed_bot_io backend_chat_db ''u1'' sample_body))) = [[]]"
  by code_simp

text \<open>
  C4, amended. When the chatbot call of a turn fails, the database is left as it was, so the
  user entry pushed in memory is not recorded in the stored history; the controller answers
  with status 500 and the message of the error, and the chat page shows the user's message
  followed by its fixed fallback reply.
\<close>

theorem failed_reply_outcome:
  assumes "callChatBot (bot_exit io) (bot_stdout io) (bot_stderr io) = Inl e"
    and "ai_calls (sendMessage_with nd io db userId body) = 1"
  shows "co_db (sendMessage_with nd io db userId body) = db
       \<and> co_reply (sendMessage_with nd io db userId body) = chat_failed e
       \<and> status (chat_failed e) = 500
       \<and> (js_trim input \<noteq> [] \<longrightarrow>
            handleSend messages input None
              = messages @ [\<lparr> sender = ''user'', ui_text = input \<rparr>,
                            \<lparr> sender = ''ai'', ui_text = fallback_reply \<rparr>])"
proof -
  obtain s m where r: "reaches_turn nd io db userId body s m"
    using sendMessage_with_cases [of nd io db userId body] assms(2) by auto
  then have "sendMessage_with nd io db userId body = turn_outcome io db s m"
    by (rule sendMessage_with_turn)
  then show ?thesis
    using turn_outcome_bot_failure [OF assms(1), of db s m]
    by (simp add: chat_failed_def handleSend_def Let_def)
qed

theorem failed_reply_outcome_witness:
  "co_db (sendMessage_Backend failed_bot_io backend_chat_db ''u1'' sample_body) = backend_chat_db
   \<and> status (co_reply (sendMessage_Backend failed_bot_io backend_chat_db ''u1'' sample_body)) = 500
   \<and> handleSend [] ''Why'' None
        = [\<lparr> sender = ''user'', ui_text = ''Why'' \<rparr>, \<lparr> sender = ''ai'', ui_text = fallback_reply \<rparr>]"
proof -
  have h1: "callChatBot (bot_exit failed_bot_io) (bot_stdout failed_bot_io) (bot_stderr failed_bot_io)
              = Inl (Error ''ChatBot failed (exit 1): Unknown error'')"
    by code_simp
  have h2: "ai_calls (sendMessage_with no_tests_field failed_bot_io backend_chat_db ''u1'' sample_body) = 1"
    by code_simp
  have h3: "js_trim ''Why'' \<noteq> []"
    by code_simp
  show ?thesis
    using failed_reply_outcome [OF h1 h2, of "''Why''" "[]"] h3
    by (simp add: sendMessage_Backend_def chat_failed_def)
qed

text \<open>
  C10. A request to the message route whose message has more than 1000 characters is answered
  with status 400; the database is left as it was and the chatbot is not called.
\<close>

theorem long_message_rejected:
  assumes "b_message body = Some (JStr m)" and "length m > 1000"
  shows "status (co_reply (post_message io db userId body)) = 400
       \<and> \<not> success (co_reply (post_message io db userId body))
       \<and> co_db (post_message io db userId body) = db
       \<and> ai_calls (post_message io db userId body) = 0"
proof -
  have "\<exists>t. validateMessage body = Some (chat_reject 400 t)"
    using assms by (auto simp: validateMessage_def)
  then show ?thesis
    by (auto simp: post_message_def chat_reject_def)
qed

theorem long_message_rejected_witness:
  "status (co_reply (post_message sample_io backend_chat_db ''u1'' long_body)) = 400
   \<and> co_db (post_message sample_io backend_chat_db ''u1'' long_body) = backend_chat_db
   \<and> ai_calls (post_message sample_io backend_chat_db ''u1'' long_body) = 0"
proof -
  have h1: "b_message long_body = Some (JStr (replicate 1001 (CHR ''a'')))"
    by (simp add: long_body_def)
  have h2: "length (replicate 1001 (CHR ''a'')) > 1000"
    by simp
  show ?thesis
    using long_message_rejected [OF h1 h2, of sample_io backend_chat_db "''u1''"] by simp
qed

lemma validateMessage_status: "validateMessage body = Some r \<Longrightarrow> status r = 400"
  by (cases "b_message body"; cases "the (b_message body)")
     (auto simp: validateMessage_def chat_reject_def split: if_splits)

lemma chatRateLimit_status: "chatRateLimit io db userId body = Some r \<Longrightarrow> status r = 404 \<or> status r = 429"
  by (cases "find_session db userId (b_chatId body)")
     (auto simp: chatRateLimit_def chat_reject_def Let_def split: if_splits)

lemma post_message_success:
  assumes "status (co_reply (post_message io db userId body)) = 200"
  shows "post_message io db userId body = sendMessage_with no_tests_field io db userId body"
proof (cases "validateMessage body")
  case (Some r)
  then show ?thesis using assms validateMessage_status [OF Some] by (simp add: post_message_def)
next
  case None
  show ?thesis
  proof (cases "chatRateLimit io db userId body")
    case (Some r)
    then show ?thesis using assms None chatRateLimit_status [OF Some] by (auto simp: post_message_def)
  next
    case n: None
    then show ?thesis using None by (simp add: post_message_def sendMessage_Backend_def)
  qed
qed

text \<open>
  C5. After a turn on a session has completed, its assistant entry stamped at \<open>now_bot\<close>, a
  second valid request on the same session that is checked less than 2000 milliseconds after
  that instant is answered with status 429, leaves the database as it was and does not call
  the chatbot; when the rate-limit check itself fails, the request is handed to
  \<open>sendMessage\<close> as if there were no check.
\<close>

theorem rate_limit_after_turn:
  assumes "status (co_reply (post_message io1 db userId body1)) = 200"
    and "validateMessage body2 = None"
    and "b_chatId body2 = b_chatId body1"
    and "rate_now io2 - now_bot io1 < 2000"
  shows "(\<not> rate_find_fails io2 \<longrightarrow>
            status (co_reply (post_message io2 (co_db (post_message io1 db userId body1)) userId body2)) = 429
          \<and> co_db (post_message io2 (co_db (post_message io1 db userId body1)) userId body2)
               = co_db (post_message io1 db userId body1)
          \<and> ai_calls (post_message io2 (co_db (post_message io1 db userId body1)) userId body2) = 0)
       \<and> (rate_find_fails io2 \<longrightarrow>
            post_message io2 (co_db (post_message io1 db userId body1)) userId body2
              = sendMessage_Backend io2 (co_db (post_message io1 db userId body1)) userId body2)"
proof -
  define db1 where "db1 = co_db (post_message io1 db userId body1)"
  have eq: "post_message io1 db userId body1 = sendMessage_with no_tests_field io1 db userId body1"
    using post_message_success [OF assms(1)] .
  then have ok: "status (co_reply (sendMessage_with no_tests_field io1 db userId body1)) = 200"
    using assms(1) by simp
  obtain s m b where s: "find_session db userId (b_chatId body1) = Some s"
    and db1: "co_db (sendMessage_with no_tests_field io1 db userId body1)
               = db\<lparr>chats := map (\<lambda>c. if chat_id c = chat_id s
                                        then s\<lparr>chatHistory := next_history (chatHistory s)
                                                  (chat_entry ''user'' (js_trim m) (now_user io1))
                                                  (chat_entry ''assistant'' b (now_bot io1))\<rparr>
                                        else c) (chats db)\<rparr>"
    using sendMessage_with_success [OF ok] by blast
  define a where "a = chat_entry ''assistant'' b (now_bot io1)"
  define h where "h = next_history (chatHistory s) (chat_entry ''user'' (js_trim m) (now_user io1)) a"
  define s' where "s' = s\<lparr>chatHistory := h\<rparr>"
  have "find_session db1 userId (b_chatId body1) = Some s'"
    unfolding db1_def eq db1 s'_def h_def a_def by (rule find_session_saved [OF s])
  then have f: "find_session db1 userId (b_chatId body2) = Some s'"
    using assms(3) by simp
  have "h \<noteq> [] \<and> last h = a"
    unfolding h_def by (rule next_history_last)
  then have l: "length (chatHistory s') > 0 \<and> timestamp (last (chatHistory s')) = now_bot io1"
    by (simp add: s'_def a_def chat_entry_def)
  have limited: "chatRateLimit io2 db1 userId body2
                   = Some (chat_reject 429 ''Please wait before sending another message'')"
    if "\<not> rate_find_fails io2"
    using that f l assms(4) by (simp add: chatRateLimit_def Let_def)
  have passed: "chatRateLimit io2 db1 userId body2 = None" if "rate_find_fails io2"
    using that by (simp add: chatRateLimit_def)
  have r1: "status (co_reply (post_message io2 db1 userId body2)) = 429
          \<and> co_db (post_message io2 db1 userId body2) = db1
          \<and> ai_calls (post_message io2 db1 userId body2) = 0" if "\<not> rate_find_fails io2"
    using limited [OF that] assms(2) by (simp add: post_message_def chat_reject_def)
  have r2: "post_message io2 db1 userId body2 = sendMessage_Backend io2 db1 userId body2"
    if "rate_find_fails io2"
    using passed [OF that] assms(2) by (simp add: post_message_def)
  show ?thesis
    using r1 r2 unfolding db1_def by blast
qed

theorem rate_limit_after_turn_witness:
  "status (co_reply (post_message (sample_io\<lparr>rate_now := 7000\<rparr>)
             (co_db (post_message sample_io backend_chat_db ''u1'' sample_body)) ''u1'' sample_body)) = 429
   \<and> co_db (post_message (sample_io\<lparr>rate_now := 7000\<rparr>)
             (co_db (post_message sample_io backend_chat_db ''u1'' sample_body)) ''u1'' sample_body)
        = co_db (post_message sample_io backend_chat_db ''u1'' sample_body)
   \<and> post_message (sample_io\<lparr>rate_now := 7000, rate_find_fails := True\<rparr>)
             (co_db (post_message sample_io backend_chat_db ''u1'' sample_body)) ''u1'' sample_body
        = sendMessage_Backend (sample_io\<lparr>rate_now := 7000, rate_find_fails := True\<rparr>)
             (co_db (post_message sample_io backend_chat_db ''u1'' sample_body)) ''u1'' sample_body"
proof -
  have h1: "status (co_reply (post_message sample_io backend_chat_db ''u1'' sample_body)) = 200"
    by code_simp
  have h2: "validateMessage sample_body = None"
    by code_simp
  have h3: "rate_now (sample_io\<lparr>rate_now := 7000\<rparr>) - now_bot sample_io < 2000"
    by (simp add: sample_io_def)
  have h4: "rate_now (sample_io\<lparr>rate_now := 7000, rate_find_fails := True\<rparr>) - now_bot sample_io < 2000"
    by (simp add: sample_io_def)
  have n: "\<not> rate_find_fails (sample_io\<lparr>rate_now := 7000\<rparr>)"
    by (simp add: sample_io_def)
  have y: "rate_find_fails (sample_io\<lparr>rate_now := 7000, rate_find_fails := True\<rparr>)"
    by simp
  show ?thesis
    using rate_limit_after_turn [OF h1 h2 refl h3] rate_limit_after_turn [OF h1 h2 refl h4] n y
    by blast
qed

subsection \<open>Starting a chat\<close>

lemma find_append_new:
  "find P xs = None \<Longrightarrow> P s \<Longrightarrow> find P (xs @ [s]) = Some s"
  by (induction xs) (auto split: if_splits)



lemma startChat_with_existing:
  assumes "\<not> find_fails io" and "find_report db userId (b_reportId body) = Some r"
    and "find_session_for_report db userId (report_id r) = Some s"
  shows "startChat_with seed io db userId body = \<lparr> so_db = db, so_reply = session_ready r s \<rparr>"
  using assms by (simp add: startChat_with_def)

lemma startChat_with_new:
  assumes "\<not> find_fails io" and "find_report db userId (b_reportId body) = Some r"
    and "find_session_for_report db userId (report_id r) = None"
    and "\<not> save_fails io"
    and "valid_history (chatHistory (new_session seed io db userId r))"
  shows "startChat_with seed io db userId body
           = \<lparr> so_db = db\<lparr>chats := chats db @ [new_session seed io db userId r]\<rparr>,
               so_reply = session_ready r (new_session seed io db userId r) \<rparr>"
  using assms by (simp add: startChat_with_def create_session_def new_session_def Let_def)

lemma startChat_with_ready:
  assumes "status (so_reply (startChat_with seed io db userId body)) = 200"
  shows "\<not> find_fails io \<and> (\<exists>r. find_report db userId (b_reportId body) = Some r
            \<and> ((\<exists>s. find_session_for_report db userId (report_id r) = Some s)
                \<or> (find_session_for_report db userId (report_id r) = None \<and> \<not> save_fails io
                    \<and> valid_history (chatHistory (new_session seed io db userId r)))))"
proof (cases "find_fails io")
  case True
  then show ?thesis using assms by (simp add: startChat_with_def start_failed_def)
next
  case ff: False
  show ?thesis
  proof (cases "find_report db userId (b_reportId body)")
    case None
    then show ?thesis using assms ff by (simp add: startChat_with_def chat_reject_def)
  next
    case (Some r)
    show ?thesis
    proof (cases "find_session_for_report db userId (report_id r)")
      case s: (Some s)
      then show ?thesis using ff Some by simp
    next
      case None
      then show ?thesis
        using assms ff Some
        by (auto simp: startChat_with_def create_session_def new_session_def start_failed_def Let_def
                 split: if_splits)
    qed
  qed
qed

lemma find_report_chats [simp]: "find_report (db\<lparr>chats := cs\<rparr>) userId i = find_report db userId i"
  by (cases i) (simp_all add: find_report_def)

lemma startChat_with_idempotent:
  assumes "status (so_reply (startChat_with seed io1 db userId body)) = 200"
    and "\<not> find_fails io2"
  shows "startChat_with seed io2 (so_db (startChat_with seed io1 db userId body)) userId body
           = \<lparr> so_db = so_db (startChat_with seed io1 db userId body),
               so_reply = so_reply (startChat_with seed io1 db userId body) \<rparr>"
proof -
  from startChat_with_ready [OF assms(1)] obtain r where
    ff: "\<not> find_fails io1" and r: "find_report db userId (b_reportId body) = Some r"
    and c: "(\<exists>s. find_session_for_report db userId (report_id r) = Some s)
           \<or> (find_session_for_report db userId (report_id r) = None \<and> \<not> save_fails io1
               \<and> valid_history (chatHistory (new_session seed io1 db userId r)))"
    by blast
  from c show ?thesis
  proof
    assume "\<exists>s. find_session_for_report db userId (report_id r) = Some s"
    then obtain s where s: "find_session_for_report db userId (report_id r) = Some s" by blast
    have 1: "startChat_with seed io1 db userId body = \<lparr> so_db = db, so_reply = session_ready r s \<rparr>"
      by (rule startChat_with_existing [OF ff r s])
    have 2: "startChat_with seed io2 db userId body = \<lparr> so_db = db, so_reply = session_ready r s \<rparr>"
      by (rule startChat_with_existing [OF assms(2) r s])
    show ?thesis by (simp add: 1 2)
  next
    assume n: "find_session_for_report db userId (report_id r) = None \<and> \<not> save_fails io1
               \<and> valid_history (chatHistory (new_session seed io1 db userId r))"
    define s where "s = new_session seed io1 db userId r"
    define db1 where "db1 = db\<lparr>chats := chats db @ [s]\<rparr>"
    have 1: "startChat_with seed io1 db userId body = \<lparr> so_db = db1, so_reply = session_ready r s \<rparr>"
      unfolding db1_def s_def using n by (intro startChat_with_new [OF ff r]) auto
    have "find_session_for_report db1 userId (report_id r) = Some s"
      using n by (simp add: find_session_for_report_def db1_def find_append_new s_def new_session_def)
    moreover have "find_report db1 userId (b_reportId body) = Some r"
      using r by (simp add: db1_def)
    ultimately have 2: "startChat_with seed io2 db1 userId body = \<lparr> so_db = db1, so_reply = session_ready r s \<rparr>"
      using startChat_with_existing [OF assms(2)] by blast
    show ?thesis by (simp add: 1 2)
  qed
qed







lemma startChat_Backend_idempotent:
  assumes "status (so_reply (startChat_Backend io1 db userId body)) = 200"
    and "\<not> find_fails io2"
  shows "startChat_Backend io2 (so_db (startChat_Backend io1 db userId body)) userId body
           = \<lparr> so_db = so_db (startChat_Backend io1 db userId body),
               so_reply = so_reply (startChat_Backend io1 db userId body) \<rparr>"
  using startChat_with_idempotent [of "\<lambda>io r. []" io1 db userId body io2] assms
  by (simp add: startChat_Backend_def)

subsection \<open>Grouping files by patient\<close>















lemma pv_files_set: "set (pv_files (summarize_group g)) = set (group_files g)"
  by (simp add: summarize_group_def Let_def)




end
